theory Spec2Isabelle
  imports Complex_Main
begin

section \<open>The JavaScript values the services handle\<close>

text \<open>
  The services read parsed JSON payloads and write JSON files. A value is one of the JSON
  shapes, plus \<open>undefined\<close> (what reading an absent property gives) and the two members of
  \<open>Object.prototype\<close> with an all-lower-case name, \<open>constructor\<close> and \<open>__proto__\<close>, which a
  lookup by a lower-cased key in an object literal can return. Numbers are modelled as
  integers: unix timestamps, priorities and counters. Strings are byte strings, so a
  character outside ASCII is its UTF-8 bytes.
\<close>

datatype json =
    JUndefined
  | JNull
  | JBool bool
  | JNum int
  | JStr string
  | JArr "json list"
  | JObj "(string \<times> json) list"
  | JObjectFunction
  | JObjectPrototype

type_synonym obj = "(string \<times> json) list"

text \<open>Property access \<open>o.name\<close> on a parsed object.\<close>

definition field :: "obj \<Rightarrow> string \<Rightarrow> json" where
  "field ob name = (case map_of ob name of None \<Rightarrow> JUndefined | Some v \<Rightarrow> v)"

text \<open>
  Property access on a value that is known not to be \<open>null\<close> or \<open>undefined\<close>: a primitive or
  an array has none of the property names the services read.
\<close>

definition get_prop :: "json \<Rightarrow> string \<Rightarrow> json" where
  "get_prop v name = (case v of JObj ob \<Rightarrow> field ob name | _ \<Rightarrow> JUndefined)"

text \<open>Truthiness, and the operator \<open>a || b\<close>.\<close>

fun truthy :: "json \<Rightarrow> bool" where
  "truthy JUndefined = False"
| "truthy JNull = False"
| "truthy (JBool b) = b"
| "truthy (JNum n) = (n \<noteq> 0)"
| "truthy (JStr s) = (s \<noteq> [])"
| "truthy (JArr _) = True"
| "truthy (JObj _) = True"
| "truthy JObjectFunction = True"
| "truthy JObjectPrototype = True"

definition js_or :: "json \<Rightarrow> json \<Rightarrow> json" where
  "js_or a b = (if truthy a then a else b)"

subsection \<open>Numbers and strings\<close>

text \<open>Decimal printing of integers. \<open>digit_char\<close> is applied to numbers below 10 only.\<close>

definition digit_char :: "nat \<Rightarrow> char" where
  "digit_char d = ''0123456789'' ! d"

fun string_of_nat :: "nat \<Rightarrow> string" where
  "string_of_nat n =
     (if n < 10 then [digit_char n] else string_of_nat (n div 10) @ [digit_char (n mod 10)])"

declare string_of_nat.simps [simp del]

definition string_of_int :: "int \<Rightarrow> string" where
  "string_of_int i = (if i < 0 then CHR ''-'' # string_of_nat (nat (- i)) else string_of_nat (nat i))"

text \<open>\<open>Array.prototype.join\<close> on strings.\<close>

fun join :: "string \<Rightarrow> string list \<Rightarrow> string" where
  "join sep [] = []"
| "join sep [x] = x"
| "join sep (x # y # ys) = x @ sep @ join sep (y # ys)"

text \<open>
  \<open>String(v)\<close>. Inside \<open>join\<close> an element that is \<open>null\<close> or \<open>undefined\<close> prints as the empty
  string, which is why an array prints its elements through \<open>join_elem\<close>.
\<close>

fun js_to_string :: "json \<Rightarrow> string" where
  "js_to_string JUndefined = ''undefined''"
| "js_to_string JNull = ''null''"
| "js_to_string (JBool b) = (if b then ''true'' else ''false'')"
| "js_to_string (JNum n) = string_of_int n"
| "js_to_string (JStr s) = s"
| "js_to_string (JArr xs) =
     join '','' (map (\<lambda>x. case x of JUndefined \<Rightarrow> [] | JNull \<Rightarrow> [] | _ \<Rightarrow> js_to_string x) xs)"
| "js_to_string (JObj _) = ''[object Object]''"
| "js_to_string JObjectFunction = ''function Object() { [native code] }''"
| "js_to_string JObjectPrototype = ''[object Object]''"

definition join_elem :: "json \<Rightarrow> string" where
  "join_elem x = (case x of JUndefined \<Rightarrow> [] | JNull \<Rightarrow> [] | _ \<Rightarrow> js_to_string x)"

text \<open>\<open>String.prototype.padStart(k, '0')\<close>.\<close>

definition pad_start :: "nat \<Rightarrow> string \<Rightarrow> string" where
  "pad_start k s = replicate (k - length s) CHR ''0'' @ s"

text \<open>\<open>Array.prototype.slice(start)\<close>: a negative start counts from the end.\<close>

definition slice_from :: "int \<Rightarrow> 'a list \<Rightarrow> 'a list" where
  "slice_from k xs =
     (let n = int (length xs);
          s = (if k < 0 then max (n + k) 0 else min k n)
      in drop (nat s) xs)"

subsection \<open>Dates\<close>

text \<open>
  A time value is a number of milliseconds since the epoch, and \<open>toISOString\<close> prints it
  in UTC. The calendar is the one of the language specification: \<open>DayFromYear y\<close> is the
  day number of the first day of year \<open>y\<close>, the year of a day is the last year that begins
  no later, and month and date are read off the day within the year. The year is found
  without a search: 400 years are 146097 days, so counting from the year 2000 the quotient
  by 146097 gives the block of 400 years, and within the block the quotient by 365 is the
  year or the year after it.
\<close>

definition DayFromYear :: "int \<Rightarrow> int" where
  "DayFromYear y = 365 * (y - 1970) + (y - 1969) div 4 - (y - 1901) div 100 + (y - 1601) div 400"

definition InLeapYear :: "int \<Rightarrow> int" where
  "InLeapYear y = (if y mod 4 = 0 \<and> (y mod 100 \<noteq> 0 \<or> y mod 400 = 0) then 1 else 0)"

definition YearFromDay :: "int \<Rightarrow> int" where
  "YearFromDay day =
     (let base = 2000 + 400 * ((day - 10957) div 146097);
          c = min 399 ((day - 10957) mod 146097 div 365)
      in if DayFromYear (base + c) \<le> day then base + c else base + c - 1)"

text \<open>The month, from 0, and the date, from 1, of day \<open>d\<close> of a year; \<open>l\<close> is 1 in a leap year.\<close>

definition MonthFromDay :: "int \<Rightarrow> int \<Rightarrow> int" where
  "MonthFromDay d l =
     (if d < 31 then 0 else if d < 59 + l then 1 else if d < 90 + l then 2
      else if d < 120 + l then 3 else if d < 151 + l then 4 else if d < 181 + l then 5
      else if d < 212 + l then 6 else if d < 243 + l then 7 else if d < 273 + l then 8
      else if d < 304 + l then 9 else if d < 334 + l then 10 else 11)"

definition DateFromDay :: "int \<Rightarrow> int \<Rightarrow> int" where
  "DateFromDay d l =
     (if d < 31 then d + 1 else if d < 59 + l then d - 30 else if d < 90 + l then d - 58 - l
      else if d < 120 + l then d - 89 - l else if d < 151 + l then d - 119 - l
      else if d < 181 + l then d - 150 - l else if d < 212 + l then d - 180 - l
      else if d < 243 + l then d - 211 - l else if d < 273 + l then d - 242 - l
      else if d < 304 + l then d - 272 - l else if d < 334 + l then d - 303 - l
      else d - 333 - l)"

definition ms_per_day :: int where
  "ms_per_day = 86400000"

definition iso_year :: "int \<Rightarrow> string" where
  "iso_year y =
     (if 0 \<le> y \<and> y \<le> 9999 then pad_start 4 (string_of_nat (nat y))
      else (if y < 0 then CHR ''-'' else CHR ''+'') # pad_start 6 (string_of_nat (nat \<bar>y\<bar>)))"

definition pad2 :: "int \<Rightarrow> string" where
  "pad2 n = pad_start 2 (string_of_nat (nat n))"

definition iso_of_time :: "int \<Rightarrow> string" where
  "iso_of_time t =
     (let day = t div ms_per_day;
          y = YearFromDay day;
          d = day - DayFromYear y;
          r = t mod ms_per_day
      in iso_year y @ ''-'' @ pad2 (MonthFromDay d (InLeapYear y) + 1) @ ''-''
         @ pad2 (DateFromDay d (InLeapYear y)) @ ''T''
         @ pad2 (r div 3600000) @ '':'' @ pad2 (r div 60000 mod 60) @ '':''
         @ pad2 (r div 1000 mod 60) @ ''.'' @ pad_start 3 (string_of_nat (nat (r mod 1000)))
         @ ''Z'')"

text \<open>
  What the services take from the runtime and the libraries: the clock \<open>Date.now()\<close>, the
  parser behind \<open>new Date(string)\<close> (\<open>None\<close> is the invalid date), the next \<open>uuidv4()\<close>
  and node-cron's \<open>validate\<close>.
\<close>

record runtime =
  date_now :: int
  date_parse :: "string \<Rightarrow> int option"
  uuidv4 :: string
  cron_validate :: "string \<Rightarrow> bool"

text \<open>\<open>new Date().toISOString()\<close>.\<close>

definition now_iso :: "runtime \<Rightarrow> string" where
  "now_iso rt = iso_of_time (date_now rt)"

subsection \<open>Exceptions\<close>

text \<open>
  A thrown \<open>Error\<close> with its message, the \<open>RangeError\<close> of \<open>toISOString\<close> on an invalid
  date, and the \<open>TypeError\<close> of reading a property of \<open>null\<close> or calling a method a value
  does not have.
\<close>

datatype js_error = Error string | RangeError | TypeError

text \<open>
  The \<open>Date\<close> constructor keeps a time value only within 8.64e15 milliseconds of the
  epoch; outside, the date is invalid, and \<open>toISOString\<close> throws on an invalid date.
\<close>

definition time_clip :: "int \<Rightarrow> int option" where
  "time_clip t = (if \<bar>t\<bar> \<le> 8640000000000000 then Some t else None)"

definition toISOString :: "int option \<Rightarrow> js_error + string" where
  "toISOString date = (case date of None \<Rightarrow> Inl RangeError | Some t \<Rightarrow> Inr (iso_of_time t))"

subsection \<open>parseInt and split\<close>

text \<open>
  \<open>parseInt(s)\<close> with no radix: leading white space is skipped, then an optional sign, then
  an optional \<open>0x\<close> or \<open>0X\<close>, which makes the radix 16; the longest run of digits of the
  radix is the value, and no digit at all gives \<open>NaN\<close>, here \<open>None\<close>.
  \<open>ws_len\<close> is the number of bytes of the white space or line terminator character a
  string starts with, 0 when there is none.
\<close>

definition ws_len :: "string \<Rightarrow> nat" where
  "ws_len s =
     (case s of
        [] \<Rightarrow> 0
      | c # cs \<Rightarrow>
          if c \<in> set [CHR 0x09, CHR 0x0A, CHR 0x0B, CHR 0x0C, CHR 0x0D, CHR 0x20] then 1
          else if take 2 s = [CHR 0xC2, CHR 0xA0] then 2
          else if take 3 s = [CHR 0xE1, CHR 0x9A, CHR 0x80] then 3
          else if take 2 s = [CHR 0xE2, CHR 0x80] \<and> length s \<ge> 3
                  \<and> s ! 2 \<in> set [CHR 0x80, CHR 0x81, CHR 0x82, CHR 0x83, CHR 0x84, CHR 0x85,
                                 CHR 0x86, CHR 0x87, CHR 0x88, CHR 0x89, CHR 0x8A, CHR 0xA8,
                                 CHR 0xA9, CHR 0xAF] then 3
          else if take 3 s = [CHR 0xE2, CHR 0x81, CHR 0x9F] then 3
          else if take 3 s = [CHR 0xE3, CHR 0x80, CHR 0x80] then 3
          else if take 3 s = [CHR 0xEF, CHR 0xBB, CHR 0xBF] then 3
          else 0)"

function strip_ws :: "string \<Rightarrow> string" where
  "strip_ws s = (if ws_len s = 0 then s else strip_ws (drop (ws_len s) s))"
  by pat_completeness auto
termination
proof (relation "measure length")
  show "wf (measure length)"
    by simp
next
  fix s :: string
  assume "ws_len s \<noteq> 0"
  moreover from this have "s \<noteq> []"
    by (auto simp: ws_len_def)
  ultimately show "(drop (ws_len s) s, s) \<in> measure length"
    by simp
qed

declare strip_ws.simps [simp del]

definition digit_table :: "(char \<times> nat) list" where
  "digit_table =
     zip ''0123456789abcdefghijklmnopqrstuvwxyz'' [0..<36]
     @ zip ''ABCDEFGHIJKLMNOPQRSTUVWXYZ'' [10..<36]"

definition digit_of :: "nat \<Rightarrow> char \<Rightarrow> nat option" where
  "digit_of radix c =
     (case map_of digit_table c of
        None \<Rightarrow> None
      | Some v \<Rightarrow> if v < radix then Some v else None)"

definition digits_value :: "nat \<Rightarrow> string \<Rightarrow> nat" where
  "digits_value radix ds =
     foldl (\<lambda>acc c. acc * radix + (case digit_of radix c of None \<Rightarrow> 0 | Some v \<Rightarrow> v)) 0 ds"

definition parse_digits :: "nat \<Rightarrow> string \<Rightarrow> nat option" where
  "parse_digits radix s =
     (let ds = takeWhile (\<lambda>c. digit_of radix c \<noteq> None) s
      in if ds = [] then None else Some (digits_value radix ds))"

definition parse_unsigned :: "string \<Rightarrow> nat option" where
  "parse_unsigned s =
     (if take 2 s = ''0x'' \<or> take 2 s = ''0X'' then parse_digits 16 (drop 2 s)
      else parse_digits 10 s)"

definition parseInt :: "string \<Rightarrow> int option" where
  "parseInt str =
     (case strip_ws str of
        [] \<Rightarrow> None
      | c # cs \<Rightarrow>
          if c = CHR ''-'' then map_option (\<lambda>n. - int n) (parse_unsigned cs)
          else if c = CHR ''+'' then map_option int (parse_unsigned cs)
          else map_option int (parse_unsigned (c # cs)))"

text \<open>\<open>String.prototype.split\<close> with a separator of one character.\<close>

fun split_on :: "char \<Rightarrow> string \<Rightarrow> string list" where
  "split_on sep [] = [[]]"
| "split_on sep (c # cs) =
     (if c = sep then [] # split_on sep cs
      else case split_on sep cs of
             [] \<Rightarrow> [[c]]
           | p # ps \<Rightarrow> (c # p) # ps)"

subsection \<open>Conversion to a number\<close>

text \<open>
  \<open>ToNumber\<close>, as the multiplication \<open>x * 1000\<close> applies it. A string is trimmed; the empty
  string is 0; a decimal integer with an optional sign, or an unsigned integer with the
  prefix \<open>0x\<close>, \<open>0o\<close> or \<open>0b\<close>, is its value. Since numbers are integers here, any other
  string, among them those with a fraction or an exponent, gives \<open>NaN\<close>.
\<close>

fun trim_end :: "string \<Rightarrow> string" where
  "trim_end [] = []"
| "trim_end (c # cs) = (if strip_ws (c # cs) = [] then [] else c # trim_end cs)"

definition all_digits :: "nat \<Rightarrow> string \<Rightarrow> nat option" where
  "all_digits radix ds =
     (if ds \<noteq> [] \<and> list_all (\<lambda>c. digit_of radix c \<noteq> None) ds
      then Some (digits_value radix ds) else None)"

definition string_to_number :: "string \<Rightarrow> int option" where
  "string_to_number str =
     (let s = trim_end (strip_ws str)
      in if s = [] then Some 0
         else if take 2 s = ''0x'' \<or> take 2 s = ''0X'' then map_option int (all_digits 16 (drop 2 s))
         else if take 2 s = ''0o'' \<or> take 2 s = ''0O'' then map_option int (all_digits 8 (drop 2 s))
         else if take 2 s = ''0b'' \<or> take 2 s = ''0B'' then map_option int (all_digits 2 (drop 2 s))
         else if hd s = CHR ''-'' then map_option (\<lambda>n. - int n) (all_digits 10 (tl s))
         else if hd s = CHR ''+'' then map_option int (all_digits 10 (tl s))
         else map_option int (all_digits 10 s))"

fun to_number :: "json \<Rightarrow> int option" where
  "to_number JUndefined = None"
| "to_number JNull = Some 0"
| "to_number (JBool b) = Some (if b then 1 else 0)"
| "to_number (JNum n) = Some n"
| "to_number (JStr s) = string_to_number s"
| "to_number (JArr xs) = string_to_number (js_to_string (JArr xs))"
| "to_number (JObj _) = None"
| "to_number JObjectFunction = None"
| "to_number JObjectPrototype = None"

subsection \<open>Base64\<close>

text \<open>\<open>Buffer.from(s).toString('base64')\<close>: the standard alphabet, padded with \<open>=\<close>.\<close>

definition base64_alphabet :: string where
  "base64_alphabet = ''ABCDEFGHIJKLMNOPQRSTUVWXYZabcdefghijklmnopqrstuvwxyz0123456789+/''"

definition sextet :: "nat \<Rightarrow> char" where
  "sextet n = base64_alphabet ! n"

fun base64 :: "string \<Rightarrow> string" where
  "base64 [] = []"
| "base64 [a] =
     (let x = (of_char a :: nat)
      in [sextet (x div 4), sextet (x mod 4 * 16), CHR ''='', CHR ''=''])"
| "base64 [a, b] =
     (let x = (of_char a :: nat); y = (of_char b :: nat)
      in [sextet (x div 4), sextet (x mod 4 * 16 + y div 16), sextet (y mod 16 * 4), CHR ''=''])"
| "base64 (a # b # c # rest) =
     (let x = (of_char a :: nat); y = (of_char b :: nat); z = (of_char c :: nat)
      in [sextet (x div 4), sextet (x mod 4 * 16 + y div 16),
          sextet (y mod 16 * 4 + z div 64), sextet (z mod 64)] @ base64 rest)"

section \<open>The JSON file store (backend/database/db.js)\<close>

record last_alert_entry =
  alertIds :: "string list"
  updatedAt :: string

record log_request =
  req_type :: string
  req_action :: string
  req_message :: string
  req_details :: json

record log_entry =
  log_id :: string
  log_timestamp :: string
  log_type :: string
  log_action :: string
  log_message :: string
  log_details :: json

text \<open>
  The files the services below read and write: \<open>last-alerts.json\<close>, \<open>logs.json\<close>, and
  the settings they consult.
\<close>

record db =
  last_alerts :: "string \<rightharpoonup> last_alert_entry"
  logs :: "log_entry list"
  maxLogsToKeep :: int
  apiProvider :: string
  forecastEnabled :: bool
  forecastTime :: string
  settings_updatedAt :: string

definition getLastAlerts :: "db \<Rightarrow> (string \<rightharpoonup> last_alert_entry)" where
  "getLastAlerts d = last_alerts d"

definition getLogs :: "int \<Rightarrow> db \<Rightarrow> log_entry list" where
  "getLogs limit d = slice_from (- limit) (logs d)"

definition addLog :: "runtime \<Rightarrow> log_request \<Rightarrow> db \<Rightarrow> db" where
  "addLog rt logEntry d =
     (let logs0 = getLogs (maxLogsToKeep d * 2) d;
          newLog = \<lparr> log_id = uuidv4 rt,
                     log_timestamp = now_iso rt,
                     log_type = (if req_type logEntry \<noteq> [] then req_type logEntry else ''info''),
                     log_action = req_action logEntry,
                     log_message = req_message logEntry,
                     log_details = js_or (req_details logEntry) JNull \<rparr>;
          trimmed = slice_from (- maxLogsToKeep d) (logs0 @ [newLog])
      in d\<lparr> logs := trimmed \<rparr>)"

definition setLastAlertForLocation :: "runtime \<Rightarrow> string \<Rightarrow> string list \<Rightarrow> db \<Rightarrow> db" where
  "setLastAlertForLocation rt locationId ids d =
     d\<lparr> last_alerts := (getLastAlerts d)(locationId \<mapsto> \<lparr> alertIds = ids, updatedAt = now_iso rt \<rparr>) \<rparr>"

definition getLastAlertIdsForLocation :: "string \<Rightarrow> db \<Rightarrow> string list" where
  "getLastAlertIdsForLocation locationId d =
     (case getLastAlerts d locationId of None \<Rightarrow> [] | Some e \<Rightarrow> alertIds e)"

definition clearLastAlerts :: "db \<Rightarrow> db" where
  "clearLastAlerts d = d\<lparr> last_alerts := Map.empty \<rparr>"

subsection \<open>Settings\<close>

text \<open>
  The settings the forecast scheduler updates. \<open>updateSettings\<close> lays the given fields over
  the stored ones, stamps the result and logs the names of the fields.
\<close>

datatype setting = ForecastTime string | ForecastEnabled bool

fun setting_key :: "setting \<Rightarrow> string" where
  "setting_key (ForecastTime _) = ''forecastTime''"
| "setting_key (ForecastEnabled _) = ''forecastEnabled''"

fun apply_setting :: "setting \<Rightarrow> db \<Rightarrow> db" where
  "apply_setting (ForecastTime t) d = d\<lparr> forecastTime := t \<rparr>"
| "apply_setting (ForecastEnabled b) d = d\<lparr> forecastEnabled := b \<rparr>"

definition updateSettings :: "runtime \<Rightarrow> setting list \<Rightarrow> db \<Rightarrow> db" where
  "updateSettings rt newSettings d =
     (let updated = (fold apply_setting newSettings d)\<lparr> settings_updatedAt := now_iso rt \<rparr>
      in addLog rt \<lparr> req_type = ''info'',
                      req_action = ''settings_update'',
                      req_message = ''Settings updated via UI: ''
                        @ join '', '' (map setting_key newSettings),
                      req_details = JObj [(''updatedFields'',
                                           JArr (map (JStr \<circ> setting_key) newSettings))] \<rparr>
           updated)"

section \<open>Duplicate protection (backend/services/duplicateProtection.js)\<close>

text \<open>
  A formatted alert, as far as duplicate protection reads it: its \<open>alert_id\<close>, a string.
  Any record that extends \<open>alert\<close> is accepted. A missing alert list is handled like the
  empty one by both functions.
\<close>

record alert =
  alert_id :: string

text \<open>
  \<open>filterNewAlerts\<close> only reads the store. It is written in state-passing form, returning
  the store it leaves behind next to its result.
\<close>

definition filterNewAlerts ::
  "string \<Rightarrow> 'a alert_scheme list \<Rightarrow> db \<Rightarrow> 'a alert_scheme list \<times> db" where
  "filterNewAlerts locationId alerts d =
     (if alerts = [] then ([], d)
      else let lastAlertIds = getLastAlertIdsForLocation locationId d;
               newAlerts = filter (\<lambda>a. alert_id a \<notin> set lastAlertIds) alerts
           in (newAlerts, d))"

definition markAlertsSent :: "runtime \<Rightarrow> string \<Rightarrow> 'a alert_scheme list \<Rightarrow> db \<Rightarrow> db" where
  "markAlertsSent rt locationId alerts d =
     (if alerts = [] then d
      else let existingIds = getLastAlertIdsForLocation locationId d;
               newIds = map alert_id alerts;
               allIds = existingIds @ newIds;
               trimmedIds = slice_from (- 100) allIds;
               d1 = setLastAlertForLocation rt locationId trimmedIds d
           in addLog rt \<lparr> req_type = ''info'',
                           req_action = ''duplicate_protection'',
                           req_message = ''Marked '' @ string_of_nat (length alerts)
                             @ '' alerts as sent for location '' @ locationId,
                           req_details = JObj [(''locationId'', JStr locationId),
                                               (''alertIds'', JArr (map JStr newIds))] \<rparr> d1)"

definition clearAll :: "runtime \<Rightarrow> db \<Rightarrow> db" where
  "clearAll rt d =
     addLog rt \<lparr> req_type = ''warning'',
                  req_action = ''duplicate_protection'',
                  req_message = ''All stored alert IDs cleared - duplicate protection reset'',
                  req_details = JUndefined \<rparr> (clearLastAlerts d)"

definition clearForLocation :: "runtime \<Rightarrow> string \<Rightarrow> db \<Rightarrow> db" where
  "clearForLocation rt locationId d =
     addLog rt \<lparr> req_type = ''info'',
                  req_action = ''duplicate_protection'',
                  req_message = ''Cleared stored alert IDs for location '' @ locationId,
                  req_details = JObj [(''locationId'', JStr locationId)] \<rparr>
       (setLastAlertForLocation rt locationId [] d)"

text \<open>
  What the running system does to the store: \<open>last-alerts.json\<close> starts as the empty
  object, and only the functions of the duplicate protection service write it; logging
  and settings updates go to other files. A history of the system is a list of such
  operations, run in order.
\<close>

datatype store_op =
    MarkAlertsSent runtime string "alert list"
  | ClearForLocation runtime string
  | ClearAll runtime
  | AddLog runtime log_request
  | UpdateSettings runtime "setting list"

fun run_op :: "store_op \<Rightarrow> db \<Rightarrow> db" where
  "run_op (MarkAlertsSent rt locationId alerts) d = markAlertsSent rt locationId alerts d"
| "run_op (ClearForLocation rt locationId) d = clearForLocation rt locationId d"
| "run_op (ClearAll rt) d = clearAll rt d"
| "run_op (AddLog rt logEntry) d = addLog rt logEntry d"
| "run_op (UpdateSettings rt newSettings) d = updateSettings rt newSettings d"

definition run :: "store_op list \<Rightarrow> db \<Rightarrow> db" where
  "run ops d = fold run_op ops d"

section \<open>The weather classifier (backend/services/weatherConditionFetcher.js)\<close>

text \<open>
  A numeric field of a reading is a JavaScript number; \<open>None\<close> stands for \<open>NaN\<close>, which
  every comparison answers with false. The optional fields \<open>rain\<close>, \<open>snow\<close> and
  \<open>visibility\<close> may also be \<open>null\<close> or absent: their guards \<open>x && x > c\<close> skip these
  as they skip \<open>NaN\<close>, so \<open>None\<close> stands for them too. The description is a string.
\<close>

type_synonym number = "real option"

fun gt :: "number \<Rightarrow> real \<Rightarrow> bool" where
  "gt None c = False"
| "gt (Some x) c = (x > c)"

fun lt :: "number \<Rightarrow> real \<Rightarrow> bool" where
  "lt None c = False"
| "lt (Some x) c = (x < c)"

text \<open>\<open>feelsLike !== temp && Math.abs(feelsLike - temp) > 10\<close>.\<close>

fun differs_by_more_than_10 :: "number \<Rightarrow> number \<Rightarrow> bool" where
  "differs_by_more_than_10 (Some f) (Some t) = (f \<noteq> t \<and> \<bar>f - t\<bar> > 10)"
| "differs_by_more_than_10 _ _ = False"

text \<open>A number used as a condition: \<open>0\<close> and \<open>NaN\<close> are falsy.\<close>

fun truthy_number :: "number \<Rightarrow> bool" where
  "truthy_number None = False"
| "truthy_number (Some x) = (x \<noteq> 0)"

subsection \<open>Strings: case mapping and search\<close>

text \<open>\<open>toLowerCase\<close> and \<open>toUpperCase\<close> map the ASCII letters and leave every other byte.\<close>

definition upper_letters :: string where
  "upper_letters = ''ABCDEFGHIJKLMNOPQRSTUVWXYZ''"

definition lower_letters :: string where
  "lower_letters = ''abcdefghijklmnopqrstuvwxyz''"

definition to_lower_char :: "char \<Rightarrow> char" where
  "to_lower_char c = (case map_of (zip upper_letters lower_letters) c of None \<Rightarrow> c | Some l \<Rightarrow> l)"

definition to_upper_char :: "char \<Rightarrow> char" where
  "to_upper_char c = (case map_of (zip lower_letters upper_letters) c of None \<Rightarrow> c | Some u \<Rightarrow> u)"

definition toLowerCase :: "string \<Rightarrow> string" where
  "toLowerCase s = map to_lower_char s"

definition toUpperCase :: "string \<Rightarrow> string" where
  "toUpperCase s = map to_upper_char s"

fun starts_with :: "string \<Rightarrow> string \<Rightarrow> bool" where
  "starts_with s [] = True"
| "starts_with [] (p # ps) = False"
| "starts_with (c # cs) (p # ps) = (c = p \<and> starts_with cs ps)"

text \<open>\<open>String.prototype.includes\<close>.\<close>

fun str_includes :: "string \<Rightarrow> string \<Rightarrow> bool" where
  "str_includes [] sub = (sub = [])"
| "str_includes (c # cs) sub = (starts_with (c # cs) sub \<or> str_includes cs sub)"

subsection \<open>classifyWeather\<close>

record conditions =
  temp :: number
  feelsLike :: number
  humidity :: number
  windSpeed :: number
  description :: string
  rain :: number
  snow :: number
  visibility :: number

record classification =
  classification :: string
  isGood :: bool
  isBad :: bool
  reasons :: "string list"
  summary :: string

text \<open>The degree sign of the reason texts, in UTF-8.\<close>

definition degree :: string where
  "degree = [CHR 0xC2, CHR 0xB0]"

text \<open>
  The function keeps two variables, \<open>badReasons\<close> and \<open>severity\<close>, and runs eight checks
  over them in sequence. Each check is a function on the pair of the two. How a number
  prints inside a reason (\<open>Number::toString\<close>) is the parameter \<open>str\<close>.
\<close>

type_synonym verdict = "string list \<times> string"

definition fair_if_good :: "string \<Rightarrow> string" where
  "fair_if_good severity = (if severity = ''good'' then ''fair'' else severity)"

definition temperature_check :: "(number \<Rightarrow> string) \<Rightarrow> conditions \<Rightarrow> verdict \<Rightarrow> verdict" where
  "temperature_check str c v =
     (case v of (badReasons, severity) \<Rightarrow>
        if gt (temp c) 95 then
          (badReasons @ [''Very hot ('' @ str (temp c) @ degree @ ''F)''], ''bad'')
        else if lt (temp c) 32 then
          (badReasons @ [''Freezing ('' @ str (temp c) @ degree @ ''F)''], ''bad'')
        else if lt (temp c) 40 \<or> gt (temp c) 90 then
          (badReasons @ [''Uncomfortable temperature ('' @ str (temp c) @ degree @ ''F)''],
           fair_if_good severity)
        else (badReasons, severity))"

definition feels_like_check :: "(number \<Rightarrow> string) \<Rightarrow> conditions \<Rightarrow> verdict \<Rightarrow> verdict" where
  "feels_like_check str c v =
     (case v of (badReasons, severity) \<Rightarrow>
        if differs_by_more_than_10 (feelsLike c) (temp c) then
          (if gt (feelsLike c) 100 \<or> lt (feelsLike c) 25 then
             (badReasons @ [''Feels like '' @ str (feelsLike c) @ degree @ ''F''], ''bad'')
           else (badReasons, severity))
        else (badReasons, severity))"

definition wind_check :: "(number \<Rightarrow> string) \<Rightarrow> conditions \<Rightarrow> verdict \<Rightarrow> verdict" where
  "wind_check str c v =
     (case v of (badReasons, severity) \<Rightarrow>
        if gt (windSpeed c) 25 then
          (badReasons @ [''Strong winds ('' @ str (windSpeed c) @ '' mph)''], ''bad'')
        else if gt (windSpeed c) 15 then
          (badReasons @ [''Windy ('' @ str (windSpeed c) @ '' mph)''], fair_if_good severity)
        else (badReasons, severity))"

definition rain_check :: "(number \<Rightarrow> string) \<Rightarrow> conditions \<Rightarrow> verdict \<Rightarrow> verdict" where
  "rain_check str c v =
     (case v of (badReasons, severity) \<Rightarrow>
        if truthy_number (rain c) \<and> gt (rain c) (1 / 2) then
          (badReasons @ [''Heavy rain ('' @ str (rain c) @ '' inches)''], ''bad'')
        else if truthy_number (rain c) \<and> gt (rain c) 0 then
          (badReasons @ [''Light rain ('' @ str (rain c) @ '' inches)''], fair_if_good severity)
        else (badReasons, severity))"

definition snow_check :: "(number \<Rightarrow> string) \<Rightarrow> conditions \<Rightarrow> verdict \<Rightarrow> verdict" where
  "snow_check str c v =
     (case v of (badReasons, severity) \<Rightarrow>
        if truthy_number (snow c) \<and> gt (snow c) 0 then
          (badReasons @ [''Snow ('' @ str (snow c) @ '' inches)''], ''bad'')
        else (badReasons, severity))"

definition humidity_check :: "(number \<Rightarrow> string) \<Rightarrow> conditions \<Rightarrow> verdict \<Rightarrow> verdict" where
  "humidity_check str c v =
     (case v of (badReasons, severity) \<Rightarrow>
        if gt (humidity c) 85 then
          (badReasons @ [''Very humid ('' @ str (humidity c) @ ''%)''],
           if severity \<noteq> ''bad'' then ''fair'' else severity)
        else (badReasons, severity))"

definition visibility_check :: "(number \<Rightarrow> string) \<Rightarrow> conditions \<Rightarrow> verdict \<Rightarrow> verdict" where
  "visibility_check str c v =
     (case v of (badReasons, severity) \<Rightarrow>
        if truthy_number (visibility c) \<and> lt (visibility c) 1 then
          (badReasons @ [''Poor visibility ('' @ str (visibility c) @ '' miles)''], ''bad'')
        else (badReasons, severity))"

definition description_check :: "conditions \<Rightarrow> verdict \<Rightarrow> verdict" where
  "description_check c v =
     (case v of (badReasons, severity) \<Rightarrow>
        let descLower = toLowerCase (description c) in
        if str_includes descLower ''thunderstorm'' \<or> str_includes descLower ''storm'' then
          (badReasons @ [''Thunderstorm conditions''], ''severe'')
        else if str_includes descLower ''tornado'' \<or> str_includes descLower ''hurricane'' then
          (badReasons @ [''Severe weather''], ''severe'')
        else if str_includes descLower ''fog'' \<or> str_includes descLower ''mist''
                \<or> str_includes descLower ''haze'' then
          (badReasons @ [''Reduced visibility conditions''], fair_if_good severity)
        else (badReasons, severity))"

definition classifyWeather :: "(number \<Rightarrow> string) \<Rightarrow> conditions \<Rightarrow> classification" where
  "classifyWeather str c =
     (case description_check c
            (visibility_check str c
              (humidity_check str c
                (snow_check str c
                  (rain_check str c
                    (wind_check str c
                      (feels_like_check str c
                        (temperature_check str c ([], ''good''))))))))
      of (badReasons, severity) \<Rightarrow>
        \<lparr> classification = severity,
          isGood = (severity = ''good''),
          isBad = (severity = ''bad'' \<or> severity = ''severe''),
          reasons = badReasons,
          summary = (if length badReasons > 0
                     then toUpperCase severity @ '' WEATHER: '' @ join '', '' badReasons
                     else ''GOOD WEATHER: Pleasant conditions'') \<rparr>)"


definition bad_or_severe :: "verdict \<Rightarrow> bool" where
  "bad_or_severe v = (snd v = ''bad'' \<or> snd v = ''severe'')"

section \<open>The conditions delivery gate (backend/services/weatherConditionProcessor.js)\<close>

text \<open>
  Of a formatted condition, the gate reads the classification, the bad-weather flag, the
  temperature and the time stamp. The table of the conditions last sent, which the
  function obtains from the store, and the settings are arguments here.
\<close>

record weather_info =
  temperature :: number

record formatted_condition =
  cond_classification :: string
  weather :: weather_info
  cond_timestamp :: string
  isBadWeather :: bool

record condition_settings =
  weatherConditionGoodWeatherInterval :: number

text \<open>Arithmetic and comparison on numbers that may be \<open>NaN\<close>.\<close>

fun abs_diff :: "number \<Rightarrow> number \<Rightarrow> number" where
  "abs_diff (Some a) (Some b) = Some \<bar>a - b\<bar>"
| "abs_diff _ _ = None"

fun ge :: "number \<Rightarrow> real \<Rightarrow> bool" where
  "ge None c = False"
| "ge (Some x) c = (x \<ge> c)"

definition shouldSendConditionUpdate ::
  "runtime \<Rightarrow> (string \<rightharpoonup> formatted_condition) \<Rightarrow> string \<Rightarrow> formatted_condition
     \<Rightarrow> condition_settings \<Rightarrow> bool" where
  "shouldSendConditionUpdate rt lastConditions locationId newCondition settings =
     (case lastConditions locationId of
        None \<Rightarrow> True
      | Some lastCondition \<Rightarrow>
          let now = date_now rt;
              lastSentTime = date_parse rt (cond_timestamp lastCondition);
              timeSinceLastSent = map_option (\<lambda>t. real_of_int (now - t)) lastSentTime
          in if cond_classification lastCondition \<noteq> cond_classification newCondition then True
             else if isBadWeather newCondition then True
             else
               let minIntervalForGoodWeather =
                     (if truthy_number (weatherConditionGoodWeatherInterval settings)
                      then weatherConditionGoodWeatherInterval settings else Some 60);
                   minIntervalMs = (case minIntervalForGoodWeather of
                                      None \<Rightarrow> 0 | Some m \<Rightarrow> m * 60 * 1000)
               in if lt timeSinceLastSent minIntervalMs then False
                  else
                    let tempDiff = abs_diff (temperature (weather newCondition))
                                            (temperature (weather lastCondition))
                    in if ge tempDiff 5 then True
                       else ge timeSinceLastSent minIntervalMs)"

section \<open>The forecast scheduler service (the second module of backend/routes/auth.js)\<close>

text \<open>
  The module keeps the running task and its cron expression in two variables. A task is
  represented by the expression it was scheduled with. The functions that change the
  variables or the store return the new state next to their result.
\<close>

record world =
  forecastTask :: "string option"
  currentForecastCron :: "string option"
  store :: db

record sched_result =
  running :: bool
  message :: string
  time :: "string option"
  cronExpression :: "string option"

text \<open>
  \<open>const [hours, minutes] = timeString.split(':').map(n => parseInt(n))\<close>: the first two
  parts, parsed; a part that is missing reads as \<open>undefined\<close>, which \<open>isNaN\<close> rejects
  as it rejects \<open>NaN\<close>.
\<close>

definition time_parts :: "string \<Rightarrow> int option \<times> int option" where
  "time_parts timeString =
     (case map parseInt (split_on CHR '':'' timeString) of
        [] \<Rightarrow> (None, None)
      | [h] \<Rightarrow> (h, None)
      | h # m # _ \<Rightarrow> (h, m))"

definition invalid_time_format :: js_error where
  "invalid_time_format = Error ''Invalid time format. Use HH:MM (e.g., 07:00)''"

definition timeToCron :: "string \<Rightarrow> js_error + string" where
  "timeToCron timeString =
     (case time_parts timeString of
        (Some hours, Some minutes) \<Rightarrow>
          if hours < 0 \<or> hours > 23 \<or> minutes < 0 \<or> minutes > 59 then Inl invalid_time_format
          else Inr (string_of_int minutes @ '' '' @ string_of_int hours @ '' * * *'')
      | _ \<Rightarrow> Inl invalid_time_format)"

definition getForecastScheduleDescription :: "string \<Rightarrow> string" where
  "getForecastScheduleDescription timeString =
     (case time_parts timeString of
        (Some hours, Some minutes) \<Rightarrow>
          let period = (if hours \<ge> 12 then ''PM'' else ''AM'');
              displayHours = (if hours = 0 then 12 else if hours > 12 then hours - 12 else hours);
              displayMinutes = pad_start 2 (string_of_int minutes)
          in ''Daily at '' @ string_of_int displayHours @ '':'' @ displayMinutes @ '' '' @ period
      | _ \<Rightarrow> ''Invalid time'')"

definition stopForecastScheduler :: "runtime \<Rightarrow> world \<Rightarrow> sched_result \<times> world" where
  "stopForecastScheduler rt w =
     (if forecastTask w \<noteq> None then
        (\<lparr> running = False, message = ''Forecast scheduler stopped'', time = None,
           cronExpression = None \<rparr>,
         w\<lparr> forecastTask := None, currentForecastCron := None,
            store := addLog rt \<lparr> req_type = ''info'', req_action = ''forecast_scheduler_stop'',
                                 req_message = ''Forecast scheduler stopped'',
                                 req_details = JUndefined \<rparr> (store w) \<rparr>)
      else
        (\<lparr> running = False, message = ''Forecast scheduler was not running'', time = None,
           cronExpression = None \<rparr>, w))"

definition startForecastScheduler :: "runtime \<Rightarrow> world \<Rightarrow> sched_result \<times> world" where
  "startForecastScheduler rt w =
     (if \<not> forecastEnabled (store w) then
        (\<lparr> running = False, message = ''Daily forecast scheduler is disabled'', time = None,
           cronExpression = None \<rparr>,
         w\<lparr> store := addLog rt \<lparr> req_type = ''info'', req_action = ''forecast_scheduler'',
                                 req_message = ''Daily forecast scheduler is disabled'',
                                 req_details = JUndefined \<rparr> (store w) \<rparr>)
      else
        let forecastTime = (if forecastTime (store w) \<noteq> [] then forecastTime (store w)
                            else ''07:00'')
        in case timeToCron forecastTime of
             Inl err \<Rightarrow>
               let msg = (case err of Error m \<Rightarrow> m | _ \<Rightarrow> [])
               in (\<lparr> running = False, message = msg, time = None, cronExpression = None \<rparr>,
                   w\<lparr> store := addLog rt
                        \<lparr> req_type = ''error'', req_action = ''forecast_scheduler_error'',
                          req_message = ''Failed to start forecast scheduler: '' @ msg,
                          req_details = JUndefined \<rparr> (store w) \<rparr>)
           | Inr cron \<Rightarrow>
               if forecastTask w \<noteq> None \<and> currentForecastCron w = Some cron then
                 (\<lparr> running = True, message = ''Forecast scheduler already running'',
                    time = Some forecastTime, cronExpression = Some cron \<rparr>, w)
               else
                 let w1 = snd (stopForecastScheduler rt w) in
                 if \<not> cron_validate rt cron then
                   (\<lparr> running = False, message = ''Invalid schedule configuration'',
                      time = None, cronExpression = None \<rparr>,
                    w1\<lparr> store := addLog rt
                         \<lparr> req_type = ''error'', req_action = ''forecast_scheduler'',
                           req_message = ''Invalid cron expression: '' @ cron,
                           req_details = JUndefined \<rparr> (store w1) \<rparr>)
                 else
                   let started = ''Forecast scheduler started: ''
                                 @ getForecastScheduleDescription forecastTime
                   in (\<lparr> running = True, message = started, time = Some forecastTime,
                          cronExpression = Some cron \<rparr>,
                       w1\<lparr> forecastTask := Some cron, currentForecastCron := Some cron,
                           store := addLog rt
                             \<lparr> req_type = ''success'', req_action = ''forecast_scheduler_start'',
                               req_message = started,
                               req_details = JObj [(''cronExpression'', JStr cron),
                                                   (''time'', JStr forecastTime)] \<rparr>
                             (store w1) \<rparr>))"

definition restartForecastScheduler :: "runtime \<Rightarrow> world \<Rightarrow> sched_result \<times> world" where
  "restartForecastScheduler rt w = startForecastScheduler rt (snd (stopForecastScheduler rt w))"

text \<open>
  The test of \<open>/^([01]?[0-9]|2[0-3]):[0-5][0-9]$/\<close>: the hour is one digit, or 0 or 1 and a
  digit, or 2 and one of 0 to 3; then a colon; then one of 0 to 5 and a digit; and nothing
  before or after.
\<close>

definition is_digit :: "char \<Rightarrow> bool" where
  "is_digit c = (c \<in> set ''0123456789'')"

definition hour_matches :: "string \<Rightarrow> bool" where
  "hour_matches h =
     (case h of
        [a] \<Rightarrow> is_digit a
      | [a, b] \<Rightarrow> (a \<in> set ''01'' \<and> is_digit b) \<or> (a = CHR ''2'' \<and> b \<in> set ''0123'')
      | _ \<Rightarrow> False)"

definition minute_matches :: "string \<Rightarrow> bool" where
  "minute_matches m =
     (case m of
        [a, b] \<Rightarrow> a \<in> set ''012345'' \<and> is_digit b
      | _ \<Rightarrow> False)"

definition timeRegex_test :: "string \<Rightarrow> bool" where
  "timeRegex_test newTime =
     (let h = takeWhile (\<lambda>c. c \<noteq> CHR '':'') newTime;
          rest = dropWhile (\<lambda>c. c \<noteq> CHR '':'') newTime
      in hour_matches h \<and> rest \<noteq> [] \<and> minute_matches (tl rest))"

definition updateForecastTime :: "runtime \<Rightarrow> string \<Rightarrow> world \<Rightarrow> (js_error + sched_result) \<times> world" where
  "updateForecastTime rt newTime w =
     (if \<not> timeRegex_test newTime then (Inl invalid_time_format, w)
      else
        let w1 = w\<lparr> store := updateSettings rt [ForecastTime newTime] (store w) \<rparr>
        in if forecastTask w1 \<noteq> None then
             (case restartForecastScheduler rt w1 of (r, w2) \<Rightarrow> (Inr r, w2))
           else
             (Inr \<lparr> running = False,
                    message = ''Forecast time updated to ''
                              @ getForecastScheduleDescription newTime,
                    time = Some newTime, cronExpression = None \<rparr>, w1))"

definition setForecastEnabled :: "runtime \<Rightarrow> bool \<Rightarrow> world \<Rightarrow> sched_result \<times> world" where
  "setForecastEnabled rt enabled w =
     (let w1 = w\<lparr> store := updateSettings rt [ForecastEnabled enabled] (store w) \<rparr>
      in if enabled then startForecastScheduler rt w1 else stopForecastScheduler rt w1)"

text \<open>
  What \<open>timeToCron\<close> requires of the two parts of a time string: each parses to a number
  in its range. The parts contain no colon.
\<close>

definition hour_ok :: "string \<Rightarrow> bool" where
  "hour_ok h = (CHR '':'' \<notin> set h \<and> (case parseInt h of None \<Rightarrow> False | Some H \<Rightarrow> 0 \<le> H \<and> H \<le> 23))"

definition minute_ok :: "string \<Rightarrow> bool" where
  "minute_ok m = (CHR '':'' \<notin> set m \<and> (case parseInt m of None \<Rightarrow> False | Some M \<Rightarrow> 0 \<le> M \<and> M \<le> 59))"

section \<open>The alert formatter (backend/services/alertFormatter.js)\<close>

text \<open>
  A raw alert is a value of the provider's payload, a location an object of the store, and
  a formatted alert the object the formatter builds, its properties in the order of the
  source. Reading a property of \<open>null\<close> or \<open>undefined\<close> throws.
\<close>

definition nullish :: "json \<Rightarrow> bool" where
  "nullish v = (v = JNull \<or> v = JUndefined)"

text \<open>\<open>a || b || c\<close>.\<close>

definition js_or3 :: "json \<Rightarrow> json \<Rightarrow> json \<Rightarrow> json" where
  "js_or3 a b c = js_or a (js_or b c)"

definition formatLocationName :: "obj \<Rightarrow> string" where
  "formatLocationName location =
     (let parts =
            (if truthy (field location ''name'') then [field location ''name''] else [])
            @ (if truthy (field location ''zipCode'')
               then [JStr (''ZIP: '' @ js_to_string (field location ''zipCode''))] else [])
            @ (if truthy (field location ''latitude'') \<and> truthy (field location ''longitude'')
               then [JStr (''('' @ js_to_string (field location ''latitude'') @ '', ''
                           @ js_to_string (field location ''longitude'') @ '')'')] else []);
          joined = join '' '' (map join_elem parts)
      in if joined \<noteq> [] then joined else ''Unknown Location'')"

definition mapNWSSeverity :: "json \<Rightarrow> js_error + string" where
  "mapNWSSeverity event =
     (if \<not> truthy event then Inr ''Unknown''
      else case event of
             JStr e \<Rightarrow>
               let eventLower = toLowerCase e
               in if str_includes eventLower ''warning'' then Inr ''Warning''
                  else if str_includes eventLower ''watch'' then Inr ''Watch''
                  else if str_includes eventLower ''advisory'' then Inr ''Advisory''
                  else if str_includes eventLower ''statement'' then Inr ''Statement''
                  else if str_includes eventLower ''emergency'' then Inr ''Extreme''
                  else Inr ''Unknown''
           | _ \<Rightarrow> Inl TypeError)"

definition mapOpenWeatherSeverity :: "json \<Rightarrow> string" where
  "mapOpenWeatherSeverity tags =
     (case tags of
        JArr ts \<Rightarrow>
          let tagStr = toLowerCase (join '' '' (map join_elem ts))
          in if str_includes tagStr ''extreme'' then ''Extreme''
             else if str_includes tagStr ''severe'' then ''Severe''
             else if str_includes tagStr ''warning'' then ''Warning''
             else if str_includes tagStr ''watch'' then ''Watch''
             else if str_includes tagStr ''advisory'' then ''Advisory''
             else if str_includes tagStr ''moderate'' then ''Moderate''
             else ''Unknown''
      | _ \<Rightarrow> ''Unknown'')"

text \<open>
  \<open>generateAlertId\<close>. The three parts are never \<open>null\<close> or \<open>undefined\<close>; \<open>join\<close> prints
  each as \<open>String\<close> does.
\<close>

definition generateAlertId :: "runtime \<Rightarrow> json \<Rightarrow> string" where
  "generateAlertId rt alert =
     (let details = js_or (get_prop alert ''details'') alert;
          parts = [js_or (get_prop details ''type'') (JStr ''unknown''),
                   js_or (get_prop details ''timestamp'') (JNum (date_now rt)),
                   js_or (get_prop details ''zone'') (JStr [])]
      in take 24 (base64 (join ''-'' (map join_elem parts))))"

text \<open>
  A lookup \<open>table[key]\<close> in an object literal by a lower-cased key: the literal's own
  property, or else one of the two inherited members with a lower-case name.
\<close>

definition lookup_lower :: "(string \<times> string) list \<Rightarrow> string \<Rightarrow> json" where
  "lookup_lower table key =
     (case map_of table key of
        Some v \<Rightarrow> JStr v
      | None \<Rightarrow> if key = ''constructor'' then JObjectFunction
                else if key = ''__proto__'' then JObjectPrototype
                else JUndefined)"

definition severityMap :: "(string \<times> string) list" where
  "severityMap =
     [(''w'', ''Warning''), (''a'', ''Watch''), (''y'', ''Advisory''), (''s'', ''Statement''),
      (''f'', ''Forecast''), (''o'', ''Outlook''), (''n'', ''Synopsis'')]"

definition textMap :: "(string \<times> string) list" where
  "textMap =
     [(''extreme'', ''Extreme''), (''severe'', ''Severe''), (''moderate'', ''Moderate''),
      (''minor'', ''Minor''), (''warning'', ''Warning''), (''watch'', ''Watch''),
      (''advisory'', ''Advisory'')]"

definition mapSeverity :: "json \<Rightarrow> json" where
  "mapSeverity v =
     (if \<not> truthy v then JStr ''Unknown''
      else
        let valueStr = toLowerCase (js_to_string v)
        in if truthy (lookup_lower severityMap valueStr) then lookup_lower severityMap valueStr
           else case parseInt (js_to_string v) of
                  Some priorityNum \<Rightarrow>
                    if priorityNum \<le> 2 then JStr ''Extreme''
                    else if priorityNum \<le> 4 then JStr ''Severe''
                    else if priorityNum \<le> 6 then JStr ''Moderate''
                    else if priorityNum \<le> 8 then JStr ''Minor''
                    else JStr ''Unknown''
                | None \<Rightarrow> js_or (lookup_lower textMap valueStr) v)"

text \<open>
  \<open>formatArea\<close>. An element of the zone list that is not a string has its \<open>name\<close> read,
  which throws when the element is \<open>null\<close>.
\<close>

definition zone_name :: "json \<Rightarrow> js_error + json" where
  "zone_name z =
     (case z of
        JStr _ \<Rightarrow> Inr z
      | _ \<Rightarrow> if nullish z then Inl TypeError
             else Inr (js_or (get_prop z ''name'')
                        (js_or3 (get_prop z ''county'') (get_prop z ''zone'') z)))"

fun collect :: "(js_error + 'a) list \<Rightarrow> js_error + 'a list" where
  "collect [] = Inr []"
| "collect (Inl e # _) = Inl e"
| "collect (Inr x # rs) = (case collect rs of Inl e \<Rightarrow> Inl e | Inr xs \<Rightarrow> Inr (x # xs))"

definition formatArea :: "json \<Rightarrow> obj \<Rightarrow> js_error + json" where
  "formatArea zones location =
     (let fallback = (case zones of
                        JStr s \<Rightarrow> if s \<noteq> [] then zones
                                  else js_or3 (field location ''name'') (field location ''zipCode'')
                                         (JStr ''Unknown Area'')
                      | _ \<Rightarrow> js_or3 (field location ''name'') (field location ''zipCode'')
                               (JStr ''Unknown Area''))
      in case zones of
           JArr zs \<Rightarrow>
             if zs \<noteq> [] then
               (case collect (map zone_name zs) of
                  Inl e \<Rightarrow> Inl e
                | Inr names \<Rightarrow> Inr (JStr (join '', '' (map join_elem names))))
             else Inr fallback
         | _ \<Rightarrow> Inr fallback)"

text \<open>
  \<open>formatTimestamp\<close>. A number is taken as seconds below 10,000,000,000 and as milliseconds
  from there on. Any other value goes through the \<open>Date\<close> constructor: \<open>true\<close> is the time
  value 1, a string is parsed, and an array or an object is parsed as the string it prints
  as. \<open>formatTimestamp_try\<close> is the body of the \<open>try\<close> block, in which \<open>toISOString\<close> may
  throw its \<open>RangeError\<close>; the \<open>catch\<close> turns that into \<open>null\<close>.
\<close>

definition new_Date :: "runtime \<Rightarrow> json \<Rightarrow> int option" where
  "new_Date rt v =
     (case v of
        JNum n \<Rightarrow> time_clip n
      | JStr s \<Rightarrow> Option.bind (date_parse rt s) time_clip
      | JArr _ \<Rightarrow> Option.bind (date_parse rt (js_to_string v)) time_clip
      | JObj _ \<Rightarrow> Option.bind (date_parse rt (js_to_string v)) time_clip
      | JObjectPrototype \<Rightarrow> Option.bind (date_parse rt (js_to_string v)) time_clip
      | JObjectFunction \<Rightarrow> Option.bind (date_parse rt (js_to_string v)) time_clip
      | _ \<Rightarrow> Option.bind (to_number v) time_clip)"

definition formatTimestamp_try :: "runtime \<Rightarrow> json \<Rightarrow> js_error + json" where
  "formatTimestamp_try rt timestamp =
     (case timestamp of
        JNum n \<Rightarrow>
          let ts = (if n < 10000000000 then n * 1000 else n)
          in map_sum id JStr (toISOString (new_Date rt (JNum ts)))
      | _ \<Rightarrow>
          (case new_Date rt timestamp of
             None \<Rightarrow> Inr JNull
           | Some t \<Rightarrow> map_sum id JStr (toISOString (Some t))))"

definition formatTimestamp :: "runtime \<Rightarrow> json \<Rightarrow> json" where
  "formatTimestamp rt timestamp =
     (if \<not> truthy timestamp then JNull
      else case formatTimestamp_try rt timestamp of
             Inl _ \<Rightarrow> JNull
           | Inr v \<Rightarrow> v)"

subsection \<open>The three formatters\<close>

definition formatNWSAlert :: "runtime \<Rightarrow> json \<Rightarrow> obj \<Rightarrow> js_error + obj" where
  "formatNWSAlert rt rawAlert location =
     (case (if truthy (get_prop rawAlert ''severity'') then Inr (get_prop rawAlert ''severity'')
            else map_sum id JStr (mapNWSSeverity (get_prop rawAlert ''event''))) of
        Inl e \<Rightarrow> Inl e
      | Inr severity \<Rightarrow>
          Inr [(''alert_id'', js_or (get_prop rawAlert ''id'') (JStr (generateAlertId rt rawAlert))),
               (''event'', js_or (get_prop rawAlert ''event'') (JStr ''Weather Alert'')),
               (''severity'', severity),
               (''description'', js_or (get_prop rawAlert ''description'') (JStr [])),
               (''headline'', js_or3 (get_prop rawAlert ''headline'') (get_prop rawAlert ''event'')
                                (JStr [])),
               (''area'', js_or (get_prop rawAlert ''areaDesc'') (JStr (formatLocationName location))),
               (''starts_at'', js_or3 (get_prop rawAlert ''onset'') (get_prop rawAlert ''effective'')
                                 JNull),
               (''ends_at'', js_or3 (get_prop rawAlert ''expires'') (get_prop rawAlert ''ends'') JNull),
               (''issued_at'', js_or3 (get_prop rawAlert ''sent'') (get_prop rawAlert ''effective'')
                                 JNull),
               (''location'', js_or (get_prop rawAlert ''locationName'')
                                (JStr (formatLocationName location))),
               (''location_id'', field location ''id''),
               (''source'', JStr ''National Weather Service''),
               (''raw_type'', js_or (get_prop rawAlert ''event'') (JStr [])),
               (''certainty'', js_or (get_prop rawAlert ''certainty'') (JStr [])),
               (''urgency'', js_or (get_prop rawAlert ''urgency'') (JStr [])),
               (''instruction'', js_or (get_prop rawAlert ''instruction'') (JStr [])),
               (''sender'', js_or (get_prop rawAlert ''senderName'') (JStr ''NWS''))])"

text \<open>\<open>x ? new Date(x * 1000).toISOString() : null\<close>.\<close>

definition seconds_to_iso :: "runtime \<Rightarrow> json \<Rightarrow> js_error + json" where
  "seconds_to_iso rt x =
     (if truthy x then
        map_sum id JStr
          (toISOString (Option.bind (to_number x) (\<lambda>n. new_Date rt (JNum (n * 1000)))))
      else Inr JNull)"

definition formatOpenWeatherMapAlert :: "runtime \<Rightarrow> json \<Rightarrow> obj \<Rightarrow> js_error + obj" where
  "formatOpenWeatherMapAlert rt rawAlert location =
     (if nullish rawAlert then Inl TypeError
      else if truthy (get_prop rawAlert ''event'')
              \<and> truthy (js_or3 (get_prop rawAlert ''headline'') (get_prop rawAlert ''areaDesc'')
                          (get_prop rawAlert ''senderName''))
      then formatNWSAlert rt rawAlert location
      else
        case seconds_to_iso rt (get_prop rawAlert ''start'') of
          Inl e \<Rightarrow> Inl e
        | Inr startTime \<Rightarrow>
            (case seconds_to_iso rt (get_prop rawAlert ''end'') of
               Inl e \<Rightarrow> Inl e
             | Inr endTime \<Rightarrow>
                 Inr [(''alert_id'', JStr (generateAlertId rt rawAlert)),
                      (''event'', js_or (get_prop rawAlert ''event'') (JStr ''Weather Alert'')),
                      (''severity'', JStr (mapOpenWeatherSeverity (get_prop rawAlert ''tags''))),
                      (''description'', js_or (get_prop rawAlert ''description'') (JStr [])),
                      (''headline'', js_or (get_prop rawAlert ''event'') (JStr [])),
                      (''area'', js_or (get_prop rawAlert ''sender_name'')
                                   (JStr (formatLocationName location))),
                      (''starts_at'', startTime),
                      (''ends_at'', endTime),
                      (''issued_at'', startTime),
                      (''location'', JStr (formatLocationName location)),
                      (''location_id'', field location ''id''),
                      (''source'', JStr ''OpenWeatherMap''),
                      (''raw_type'', js_or (get_prop rawAlert ''event'') (JStr [])),
                      (''certainty'', JStr []),
                      (''urgency'', JStr []),
                      (''tags'', js_or (get_prop rawAlert ''tags'') (JArr []))]))"

definition formatXWeatherAlert :: "runtime \<Rightarrow> db \<Rightarrow> json \<Rightarrow> obj \<Rightarrow> js_error + obj" where
  "formatXWeatherAlert rt d rawAlert location =
     (if nullish rawAlert then Inl TypeError
      else
        let details = js_or (get_prop rawAlert ''details'') rawAlert;
            timestamps = js_or (get_prop rawAlert ''timestamps'') (JObj [])
        in case formatArea (js_or3 (get_prop details ''zone'') (get_prop details ''areas'') (JArr []))
                  location of
             Inl e \<Rightarrow> Inl e
           | Inr area \<Rightarrow>
               Inr [(''alert_id'', js_or3 (get_prop details ''id'') (get_prop rawAlert ''id'')
                                     (JStr (generateAlertId rt rawAlert))),
                    (''event'', js_or3 (get_prop details ''name'') (get_prop details ''type'')
                                  (JStr [])),
                    (''severity'', mapSeverity (js_or (get_prop details ''significance'')
                                                  (get_prop details ''priority''))),
                    (''description'', js_or3 (get_prop details ''body'') (get_prop details ''desc'')
                                        (JStr [])),
                    (''headline'', js_or (get_prop details ''name'') (JStr [])),
                    (''area'', area),
                    (''starts_at'', formatTimestamp rt
                       (js_or3 (get_prop timestamps ''begins'') (get_prop details ''timestamp'')
                          (get_prop details ''issued''))),
                    (''ends_at'', formatTimestamp rt
                       (js_or (get_prop timestamps ''expires'') (get_prop details ''expires''))),
                    (''issued_at'', formatTimestamp rt
                       (js_or (get_prop timestamps ''issued'') (get_prop details ''issued''))),
                    (''location'', JStr (formatLocationName location)),
                    (''location_id'', field location ''id''),
                    (''source'', JStr (if apiProvider d \<noteq> [] then apiProvider d else ''XWeather'')),
                    (''raw_type'', js_or (get_prop details ''type'') (JStr [])),
                    (''certainty'', js_or (get_prop details ''certainty'') (JStr [])),
                    (''urgency'', js_or (get_prop details ''urgency'') (JStr []))])"

definition formatAlerts :: "runtime \<Rightarrow> db \<Rightarrow> json \<Rightarrow> obj \<Rightarrow> js_error + obj list" where
  "formatAlerts rt d rawAlerts location =
     (case rawAlerts of
        JArr alerts \<Rightarrow>
          let provider = (if apiProvider d \<noteq> [] then apiProvider d else ''openweathermap'')
          in collect (map (\<lambda>alert. if provider = ''openweathermap''
                                    then formatOpenWeatherMapAlert rt alert location
                                    else formatXWeatherAlert rt d alert location) alerts)
      | _ \<Rightarrow> Inr [])"

subsection \<open>What the properties below speak about\<close>

text \<open>The severity enumeration of the specification.\<close>

definition severity_enumeration :: "string list" where
  "severity_enumeration =
     [''Extreme'', ''Severe'', ''Warning'', ''Watch'', ''Advisory'', ''Moderate'', ''Minor'',
      ''Statement'', ''Unknown'']"

text \<open>The \<open>alert_id\<close> of each alert of a formatted batch, and their severities.\<close>

definition alert_ids :: "js_error + obj list \<Rightarrow> json list" where
  "alert_ids r = (case r of Inl _ \<Rightarrow> [] | Inr cs \<Rightarrow> map (\<lambda>c. field c ''alert_id'') cs)"


text \<open>The formatter applied to the batch it has produced.\<close>

definition reformat :: "runtime \<Rightarrow> db \<Rightarrow> obj \<Rightarrow> js_error + obj list \<Rightarrow> js_error + obj list" where
  "reformat rt d location r =
     (case r of Inl e \<Rightarrow> Inl e | Inr cs \<Rightarrow> formatAlerts rt d (JArr (map JObj cs)) location)"



text \<open>
  What every formatted alert has in common: none of the properties from which a raw
  alert's identifier, area and times are taken, and a severity that is truthy.
\<close>

definition canonical_shape :: "obj \<Rightarrow> bool" where
  "canonical_shape c =
     (field c ''id'' = JUndefined \<and> field c ''details'' = JUndefined
      \<and> field c ''type'' = JUndefined \<and> field c ''timestamp'' = JUndefined
      \<and> field c ''zone'' = JUndefined \<and> field c ''areas'' = JUndefined
      \<and> field c ''start'' = JUndefined \<and> field c ''end'' = JUndefined
      \<and> truthy (field c ''severity''))"

subsection \<open>The format of a time stamp\<close>



section \<open>Concrete inputs used in the examples\<close>

definition example_runtime :: runtime where
  "example_runtime =
     \<lparr> date_now = 1700000000000, date_parse = (\<lambda>_. None),
       uuidv4 = ''00000000-0000-4000-8000-000000000000'',
       cron_validate = (\<lambda>_. True) \<rparr>"

definition empty_db :: db where
  "empty_db = \<lparr> last_alerts = Map.empty, logs = [], maxLogsToKeep = 100,
                 apiProvider = ''xweather'',
                 forecastEnabled = False, forecastTime = ''07:00'', settings_updatedAt = [] \<rparr>"

text \<open>101 calls of \<open>markAlertsSent\<close>, each with one alert, the ids being "1" to "101".\<close>

definition hundred_and_one :: "(runtime \<times> alert list) list" where
  "hundred_and_one = map (\<lambda>n. (example_runtime, [\<lparr>alert_id = string_of_nat n\<rparr>])) [1..<102]"

text \<open>Numbers print as their integer part in the examples, \<open>NaN\<close> as "NaN".\<close>

definition example_str :: "number \<Rightarrow> string" where
  "example_str x = (case x of None \<Rightarrow> ''NaN'' | Some r \<Rightarrow> string_of_int \<lfloor>r\<rfloor>)"


definition hot_day :: conditions where
  "hot_day = \<lparr> temp = Some 97, feelsLike = Some 97, humidity = Some 40, windSpeed = Some 5,
                description = ''clear'', rain = Some 0, snow = Some 0, visibility = None \<rparr>"






text \<open>The scheduler at rest over the empty store.\<close>

definition idle_world :: world where
  "idle_world = \<lparr> forecastTask = None, currentForecastCron = None, store = empty_db \<rparr>"

text \<open>A location, and two raw alerts of the vendor shape.\<close>

definition new_york :: obj where
  "new_york = [(''id'', JStr ''loc-1''), (''name'', JStr ''New York''), (''zipCode'', JStr ''10001'')]"

definition forecast_alert :: json where
  "forecast_alert =
     JObj [(''id'', JStr ''a1''),
           (''details'', JObj [(''type'', JStr ''FL.F''), (''name'', JStr ''Flood Forecast''),
                               (''significance'', JStr ''f'')])]"

text \<open>What the vendor formatter makes of \<open>forecast_alert\<close> for \<open>new_york\<close>.\<close>

definition canonical_forecast :: obj where
  "canonical_forecast =
     [(''alert_id'', JStr ''a1''), (''event'', JStr ''Flood Forecast''),
      (''severity'', JStr ''Forecast''), (''description'', JStr []),
      (''headline'', JStr ''Flood Forecast''), (''area'', JStr ''New York''),
      (''starts_at'', JNull), (''ends_at'', JNull), (''issued_at'', JNull),
      (''location'', JStr ''New York ZIP: 10001''), (''location_id'', JStr ''loc-1''),
      (''source'', JStr ''xweather''), (''raw_type'', JStr ''FL.F''),
      (''certainty'', JStr []), (''urgency'', JStr [])]"

section \<open>Duplicate protection: properties\<close>

lemma slice_from_last: "0 < k \<Longrightarrow> slice_from (- k) xs = drop (length xs - nat k) xs"
  by (auto simp: slice_from_def Let_def max_def intro!: arg_cong2[where f=drop])

lemma slice_from_100: "slice_from (- 100) xs = drop (length xs - 100) xs"
  using slice_from_last[of 100 xs] by simp

lemma ids_addLog [simp]:
  "getLastAlertIdsForLocation loc (addLog rt e d) = getLastAlertIdsForLocation loc d"
  by (simp add: getLastAlertIdsForLocation_def addLog_def getLastAlerts_def Let_def)

lemma ids_set:
  "getLastAlertIdsForLocation loc (setLastAlertForLocation rt loc' ids d) =
     (if loc = loc' then ids else getLastAlertIdsForLocation loc d)"
  by (simp add: getLastAlertIdsForLocation_def setLastAlertForLocation_def getLastAlerts_def)

lemma ids_markAlertsSent:
  "getLastAlertIdsForLocation loc (markAlertsSent rt loc' A d) =
     (if A = [] \<or> loc \<noteq> loc' then getLastAlertIdsForLocation loc d
      else slice_from (- 100) (getLastAlertIdsForLocation loc d @ map alert_id A))"
  by (simp add: markAlertsSent_def Let_def ids_set)

lemma ids_clearForLocation:
  "getLastAlertIdsForLocation loc (clearForLocation rt loc' d) =
     (if loc = loc' then [] else getLastAlertIdsForLocation loc d)"
  by (simp add: clearForLocation_def ids_set)

lemma ids_clearAll: "getLastAlertIdsForLocation loc (clearAll rt d) = []"
  by (simp add: clearAll_def clearLastAlerts_def getLastAlertIdsForLocation_def getLastAlerts_def addLog_def Let_def)

lemma last_alerts_fold_settings: "last_alerts (fold apply_setting ss d) = last_alerts d"
proof (induction ss arbitrary: d)
  case Nil
  show ?case by simp
next
  case (Cons x ss)
  then show ?case by (cases x) simp_all
qed

lemma ids_updateSettings [simp]:
  "getLastAlertIdsForLocation loc (updateSettings rt ss d) = getLastAlertIdsForLocation loc d"
  by (simp add: updateSettings_def Let_def)
     (simp add: getLastAlertIdsForLocation_def getLastAlerts_def last_alerts_fold_settings)

lemma length_slice_100: "length (slice_from (- 100) xs) \<le> 100"
  by (simp add: slice_from_100)

lemma run_op_bounded:
  assumes "\<And>loc. length (getLastAlertIdsForLocation loc d) \<le> 100"
  shows "length (getLastAlertIdsForLocation loc (run_op x d)) \<le> 100"
  using assms
  by (cases x) (simp_all add: ids_markAlertsSent length_slice_100 ids_clearForLocation ids_clearAll)

lemma run_bounded:
  assumes "\<And>loc. length (getLastAlertIdsForLocation loc d) \<le> 100"
  shows "length (getLastAlertIdsForLocation loc (run ops d)) \<le> 100"
  using assms unfolding run_def
proof (induction ops arbitrary: d loc)
  case Nil
  then show ?case by simp
next
  case (Cons x ops)
  have "\<And>loc. length (getLastAlertIdsForLocation loc (run_op x d)) \<le> 100"
    using Cons.prems by (rule run_op_bounded)
  then show ?case
    using Cons.IH by simp
qed

lemma run_from_empty_bounded:
  assumes "last_alerts d = Map.empty"
  shows "length (getLastAlertIdsForLocation loc (run ops d)) \<le> 100"
proof (rule run_bounded)
  fix loc'
  show "length (getLastAlertIdsForLocation loc' d) \<le> 100"
    using assms by (simp add: getLastAlertIdsForLocation_def getLastAlerts_def)
qed

lemma slice_100_absorb:
  "slice_from (- 100) (slice_from (- 100) xs @ ys) = slice_from (- 100) (xs @ ys)"
proof -
  have "length xs + length ys - (length xs - 100 + 100) + (length xs - 100) = length xs + length ys - 100"
    by arith
  then show ?thesis by (simp add: slice_from_100)
qed

lemma ids_fold_mark:
  "length (getLastAlertIdsForLocation loc d) \<le> 100 \<Longrightarrow>
   getLastAlertIdsForLocation loc (fold (\<lambda>(rt, A). markAlertsSent rt loc A) steps d) =
     slice_from (- 100) (getLastAlertIdsForLocation loc d @ concat (map (\<lambda>(rt, A). map alert_id A) steps))"
proof (induction steps arbitrary: d)
  case Nil
  then show ?case by (simp add: slice_from_100)
next
  case (Cons s steps)
  obtain rt A where s: "s = (rt, A)" by (cases s)
  have b: "length (getLastAlertIdsForLocation loc (markAlertsSent rt loc A d)) \<le> 100"
    using Cons.prems by (simp add: ids_markAlertsSent length_slice_100)
  show ?case
    using Cons.IH[OF b] by (simp add: s ids_markAlertsSent slice_100_absorb)
qed


text \<open>
  C1. For every location and every list of alerts, \<open>filterNewAlerts\<close> returns the alerts
  whose \<open>alert_id\<close> is not in the list stored for the location, in their order, and leaves
  the store as it was.
\<close>

theorem filterNewAlerts_spec:
  "filterNewAlerts loc A d =
     (filter (\<lambda>a. alert_id a \<notin> set (getLastAlertIdsForLocation loc d)) A, d)"
  by (simp add: filterNewAlerts_def Let_def)


lemma set_twice_subset:
  "set (slice_from (- 100) (slice_from (- 100) (E @ N) @ N)) \<subseteq> set (slice_from (- 100) (E @ N))"
proof (cases "length N \<le> 100")
  case True
  have "set (drop (length E + length N + length N - 100) (E @ N)) \<subseteq> set (drop (length E + length N - 100) (E @ N))"
    by (rule set_drop_subset_set_drop) simp
  moreover have "set N \<subseteq> set (drop (length E + length N - 100) (E @ N))"
    using True by simp
  ultimately show ?thesis
    by (simp add: slice_100_absorb) (simp add: slice_from_100 add.assoc)
next
  case False
  then show ?thesis by (simp add: slice_100_absorb) (simp add: slice_from_100)
qed

text \<open>
  The scenario of the specification: of the alerts "a1" and "a2" the first filter pass
  returns both, and after they are marked as sent the second pass returns none.
\<close>

lemma filter_mark_filter:
  "fst (filterNewAlerts loc [\<lparr>alert_id = ''a1''\<rparr>, \<lparr>alert_id = ''a2''\<rparr>] empty_db)
     = [\<lparr>alert_id = ''a1''\<rparr>, \<lparr>alert_id = ''a2''\<rparr>]
   \<and> fst (filterNewAlerts loc [\<lparr>alert_id = ''a1''\<rparr>, \<lparr>alert_id = ''a2''\<rparr>]
        (markAlertsSent rt loc [\<lparr>alert_id = ''a1''\<rparr>, \<lparr>alert_id = ''a2''\<rparr>] empty_db)) = []"
proof -
  have e: "getLastAlertIdsForLocation loc empty_db = []"
    by (simp add: getLastAlertIdsForLocation_def getLastAlerts_def empty_db_def)
  show ?thesis
    by (simp add: filterNewAlerts_def Let_def ids_markAlertsSent e slice_from_100)
qed

text \<open>
  C2, as the code has it. \<open>markAlertsSent\<close> appends without looking at what is stored: after
  two calls with the same alerts the list for the location is the last 100 of the stored
  ids followed by the new ids twice. No id is stored after two calls that is not stored
  after one, and when nothing is evicted (stored ids plus twice the new ones are at most
  100) the same set of ids is stored, some of them twice.
\<close>

theorem markAlertsSent_twice:
  "getLastAlertIdsForLocation loc (markAlertsSent rt' loc A (markAlertsSent rt loc A d)) =
     (if A = [] then getLastAlertIdsForLocation loc d
      else slice_from (- 100) (getLastAlertIdsForLocation loc d @ map alert_id A @ map alert_id A))
   \<and> set (getLastAlertIdsForLocation loc (markAlertsSent rt' loc A (markAlertsSent rt loc A d)))
       \<subseteq> set (getLastAlertIdsForLocation loc (markAlertsSent rt loc A d))
   \<and> (length (getLastAlertIdsForLocation loc d) + 2 * length A \<le> 100 \<longrightarrow>
        set (getLastAlertIdsForLocation loc (markAlertsSent rt' loc A (markAlertsSent rt loc A d)))
        = set (getLastAlertIdsForLocation loc (markAlertsSent rt loc A d)))"
proof (intro conjI impI)
  show "getLastAlertIdsForLocation loc (markAlertsSent rt' loc A (markAlertsSent rt loc A d)) =
     (if A = [] then getLastAlertIdsForLocation loc d
      else slice_from (- 100) (getLastAlertIdsForLocation loc d @ map alert_id A @ map alert_id A))"
    using slice_100_absorb[of "getLastAlertIdsForLocation loc d @ map alert_id A" "map alert_id A"]
    by (simp add: ids_markAlertsSent)
  show "set (getLastAlertIdsForLocation loc (markAlertsSent rt' loc A (markAlertsSent rt loc A d)))
       \<subseteq> set (getLastAlertIdsForLocation loc (markAlertsSent rt loc A d))"
    using set_twice_subset[of "getLastAlertIdsForLocation loc d" "map alert_id A"]
    by (simp add: ids_markAlertsSent)
  assume "length (getLastAlertIdsForLocation loc d) + 2 * length A \<le> 100"
  then show "set (getLastAlertIdsForLocation loc (markAlertsSent rt' loc A (markAlertsSent rt loc A d)))
        = set (getLastAlertIdsForLocation loc (markAlertsSent rt loc A d))"
    by (simp add: ids_markAlertsSent slice_from_100)
qed

theorem markAlertsSent_twice_witness:
  "getLastAlertIdsForLocation ''10001''
     (markAlertsSent example_runtime ''10001'' [\<lparr>alert_id = ''a1''\<rparr>, \<lparr>alert_id = ''a2''\<rparr>]
       (markAlertsSent example_runtime ''10001'' [\<lparr>alert_id = ''a1''\<rparr>, \<lparr>alert_id = ''a2''\<rparr>] empty_db))
     = [''a1'', ''a2'', ''a1'', ''a2'']
   \<and> set (getLastAlertIdsForLocation ''10001''
     (markAlertsSent example_runtime ''10001'' [\<lparr>alert_id = ''a1''\<rparr>, \<lparr>alert_id = ''a2''\<rparr>]
       (markAlertsSent example_runtime ''10001'' [\<lparr>alert_id = ''a1''\<rparr>, \<lparr>alert_id = ''a2''\<rparr>] empty_db)))
     = {''a1'', ''a2''}"
proof -
  have e: "getLastAlertIdsForLocation ''10001'' empty_db = []"
    by (simp add: getLastAlertIdsForLocation_def getLastAlerts_def empty_db_def)
  have o: "getLastAlertIdsForLocation ''10001''
      (markAlertsSent example_runtime ''10001'' [\<lparr>alert_id = ''a1''\<rparr>, \<lparr>alert_id = ''a2''\<rparr>] empty_db)
      = [''a1'', ''a2'']"
    by (simp add: ids_markAlertsSent e slice_from_100)
  show ?thesis
    using markAlertsSent_twice[where loc = "''10001''" and rt = example_runtime and rt' = example_runtime
        and A = "[\<lparr>alert_id = ''a1''\<rparr>, \<lparr>alert_id = ''a2''\<rparr>]" and d = empty_db]
    by (auto simp add: e o slice_from_100)
qed

text \<open>
  C2 as stated fails: marking the alert "a1" twice on an empty ledger stores "a1" twice,
  whereas marking it once stores it once.
\<close>

theorem markAlertsSent_twice_counterexample:
  "getLastAlertIdsForLocation ''10001''
     (markAlertsSent example_runtime ''10001'' [\<lparr>alert_id = ''a1''\<rparr>]
       (markAlertsSent example_runtime ''10001'' [\<lparr>alert_id = ''a1''\<rparr>] empty_db))
   \<noteq> getLastAlertIdsForLocation ''10001''
     (markAlertsSent example_runtime ''10001'' [\<lparr>alert_id = ''a1''\<rparr>] empty_db)"
proof -
  have e: "getLastAlertIdsForLocation ''10001'' empty_db = []"
    by (simp add: getLastAlertIdsForLocation_def getLastAlerts_def empty_db_def)
  show ?thesis
    by (simp add: ids_markAlertsSent e slice_from_100)
qed


text \<open>
  C3. A call of \<open>markAlertsSent\<close> that marks at least one alert leaves at most 100 ids for
  the location; after any history of the system that starts from the empty ledger, any
  call leaves at most 100 ids for each location; and when calls that mark 101 distinct ids in all are made in sequence
  for a location with an empty ledger, the ledger holds the last 100 of them in order:
  all but the first, which is gone.
\<close>

theorem ledger_bounded:
  "(A \<noteq> [] \<longrightarrow> length (getLastAlertIdsForLocation loc (markAlertsSent rt loc A d)) \<le> 100)
   \<and> (last_alerts d0 = Map.empty \<longrightarrow>
        length (getLastAlertIdsForLocation loc (markAlertsSent rt loc' B (run ops d0))) \<le> 100)
   \<and> (getLastAlertIdsForLocation loc d = []
        \<and> length (concat (map (\<lambda>(rt, A). map alert_id A) steps)) = 101
        \<and> distinct (concat (map (\<lambda>(rt, A). map alert_id A) steps))
      \<longrightarrow> getLastAlertIdsForLocation loc (fold (\<lambda>(rt, A). markAlertsSent rt loc A) steps d)
            = tl (concat (map (\<lambda>(rt, A). map alert_id A) steps))
        \<and> length (getLastAlertIdsForLocation loc (fold (\<lambda>(rt, A). markAlertsSent rt loc A) steps d)) = 100
        \<and> hd (concat (map (\<lambda>(rt, A). map alert_id A) steps))
            \<notin> set (getLastAlertIdsForLocation loc (fold (\<lambda>(rt, A). markAlertsSent rt loc A) steps d)))"
proof (intro conjI impI)
  assume "A \<noteq> []"
  then show "length (getLastAlertIdsForLocation loc (markAlertsSent rt loc A d)) \<le> 100"
    by (simp add: ids_markAlertsSent length_slice_100)
next
  assume "last_alerts d0 = Map.empty"
  then have "length (getLastAlertIdsForLocation loc (run ops d0)) \<le> 100"
    by (rule run_from_empty_bounded)
  then show "length (getLastAlertIdsForLocation loc (markAlertsSent rt loc' B (run ops d0))) \<le> 100"
    by (simp add: ids_markAlertsSent length_slice_100)
next
  let ?all = "concat (map (\<lambda>(rt, A). map alert_id A) steps)"
  let ?d' = "fold (\<lambda>(rt, A). markAlertsSent rt loc A) steps d"
  assume h: "getLastAlertIdsForLocation loc d = [] \<and> length ?all = 101 \<and> distinct ?all"
  then obtain x xs where all: "?all = x # xs"
    by (cases ?all) auto
  have r: "getLastAlertIdsForLocation loc ?d' = slice_from (- 100) ?all"
    using ids_fold_mark[of loc d steps] h by simp
  have len: "length xs = 100"
    using h all by simp
  have t: "slice_from (- 100) ?all = xs"
    using len by (simp add: all slice_from_100)
  show "getLastAlertIdsForLocation loc ?d' = tl ?all"
    by (simp add: r t) (simp add: all)
  show "length (getLastAlertIdsForLocation loc ?d') = 100"
    by (simp add: r t len)
  have "x \<notin> set xs"
    using h all by simp
  then show "hd ?all \<notin> set (getLastAlertIdsForLocation loc ?d')"
    by (simp add: r t) (simp add: all)
qed

lemma string_of_nat_inj_small: "distinct (map string_of_nat [1..<102])"
  by code_simp


lemma hundred_and_one_ids:
  "concat (map (\<lambda>(rt, A). map alert_id A) hundred_and_one) = map string_of_nat [1..<102]"
  by (simp add: hundred_and_one_def comp_def)


theorem ledger_bounded_witness:
  "getLastAlertIdsForLocation ''10001''
     (fold (\<lambda>(rt, A). markAlertsSent rt ''10001'' A) hundred_and_one empty_db)
     = map string_of_nat [2..<102]
   \<and> ''1'' \<notin> set (getLastAlertIdsForLocation ''10001''
     (fold (\<lambda>(rt, A). markAlertsSent rt ''10001'' A) hundred_and_one empty_db))
   \<and> length (getLastAlertIdsForLocation ''10001''
       (markAlertsSent example_runtime ''10001'' [\<lparr>alert_id = ''a1''\<rparr>] empty_db)) \<le> 100
   \<and> length (getLastAlertIdsForLocation ''10001''
       (markAlertsSent example_runtime ''10001'' [\<lparr>alert_id = ''a1''\<rparr>]
         (run [ClearAll example_runtime] empty_db))) \<le> 100"
proof -
  have e: "getLastAlertIdsForLocation ''10001'' empty_db = []"
    by (simp add: getLastAlertIdsForLocation_def getLastAlerts_def empty_db_def)
  have r: "last_alerts empty_db = Map.empty"
    by (simp add: empty_db_def)
  have n: "[\<lparr>alert_id = ''a1''\<rparr>] \<noteq> []"
    by simp
  have l: "length (map string_of_nat [1..<102]) = 101"
    by simp
  have d: "distinct (map string_of_nat [1..<102])"
    by code_simp
  have h: "hd (map string_of_nat [1..<102]) = ''1''"
    by code_simp
  have t: "tl (map string_of_nat [1..<102]) = map string_of_nat [2..<102]"
    by code_simp
  note lb = ledger_bounded[where A = "[\<lparr>alert_id = ''a1''\<rparr>]" and loc = "''10001''"
        and rt = example_runtime and d = empty_db and B = "[\<lparr>alert_id = ''a1''\<rparr>]"
        and loc' = "''10001''" and steps = hundred_and_one and d0 = empty_db
        and ops = "[ClearAll example_runtime]"]
  have p1: "length (getLastAlertIdsForLocation ''10001''
       (markAlertsSent example_runtime ''10001'' [\<lparr>alert_id = ''a1''\<rparr>] empty_db)) \<le> 100"
    using lb n by blast
  have p2: "length (getLastAlertIdsForLocation ''10001''
       (markAlertsSent example_runtime ''10001'' [\<lparr>alert_id = ''a1''\<rparr>]
         (run [ClearAll example_runtime] empty_db))) \<le> 100"
    using lb r by blast
  have hyp: "getLastAlertIdsForLocation ''10001'' empty_db = []
        \<and> length (concat (map (\<lambda>(rt, A). map alert_id A) hundred_and_one)) = 101
        \<and> distinct (concat (map (\<lambda>(rt, A). map alert_id A) hundred_and_one))"
    unfolding hundred_and_one_ids using e l d by blast
  have p3: "getLastAlertIdsForLocation ''10001''
       (fold (\<lambda>(rt, A). markAlertsSent rt ''10001'' A) hundred_and_one empty_db)
       = tl (map string_of_nat [1..<102])
     \<and> hd (map string_of_nat [1..<102]) \<notin> set (getLastAlertIdsForLocation ''10001''
       (fold (\<lambda>(rt, A). markAlertsSent rt ''10001'' A) hundred_and_one empty_db))"
    using lb hyp unfolding hundred_and_one_ids by blast
  show ?thesis
    using p1 p2 p3 unfolding h t by blast
qed

section \<open>The weather classifier: properties\<close>










lemma strong_wind_bad: "gt (windSpeed c) 25 \<Longrightarrow> bad_or_severe (wind_check str c v)"
  by (cases v) (simp add: bad_or_severe_def wind_check_def)

lemma bad_rain: "bad_or_severe v \<Longrightarrow> bad_or_severe (rain_check str c v)"
  by (cases v) (auto simp: bad_or_severe_def rain_check_def fair_if_good_def)

lemma bad_snow: "bad_or_severe v \<Longrightarrow> bad_or_severe (snow_check str c v)"
  by (cases v) (auto simp: bad_or_severe_def snow_check_def)


lemma bad_visibility: "bad_or_severe v \<Longrightarrow> bad_or_severe (visibility_check str c v)"
  by (cases v) (auto simp: bad_or_severe_def visibility_check_def)











text \<open>The scenario of the specification: 97 degrees, light wind, clear.\<close>

lemma hot_day_scenario: "classification (classifyWeather example_str hot_day) = ''bad'' \<and> reasons (classifyWeather example_str hot_day) = [''Very hot (97'' @ degree @ ''F)'']"
    by (simp add: classifyWeather_def hot_day_def temperature_check_def feels_like_check_def
        wind_check_def rain_check_def snow_check_def humidity_check_def visibility_check_def
        description_check_def toLowerCase_def to_lower_char_def upper_letters_def
        lower_letters_def fair_if_good_def example_str_def string_of_int_def string_of_nat.simps[of 97] string_of_nat.simps[of 9] digit_char_def)

section \<open>The conditions delivery gate: properties\<close>

lemma abs_diff_some: "abs_diff a b = Some x \<longleftrightarrow> (\<exists>u v. a = Some u \<and> b = Some v \<and> x = \<bar>u - v\<bar>)"
  by (cases a; cases b) auto

text \<open>
  The test of the temperature comes after the return for "too soon", and what follows it
  returns true whenever that return was not taken. So when the stored time stamp parses,
  the two temperatures have no influence on the answer.
\<close>

lemma temperature_is_ignored:
  assumes "lastConditions loc = Some prev" and "date_parse rt (cond_timestamp prev) = Some t"
  shows "shouldSendConditionUpdate rt lastConditions loc cur settings =
     (cond_classification prev \<noteq> cond_classification cur \<or> isBadWeather cur
      \<or> real_of_int (date_now rt - t) \<ge>
           (if truthy_number (weatherConditionGoodWeatherInterval settings)
            then the (weatherConditionGoodWeatherInterval settings) else 60) * 60 * 1000)"
  using assms
  by (cases "weatherConditionGoodWeatherInterval settings";
      cases "abs_diff (temperature (weather cur)) (temperature (weather prev))")
     (auto simp: shouldSendConditionUpdate_def Let_def)


section \<open>The forecast scheduler: properties\<close>

lemma split_on_no_sep: "sep \<notin> set b \<Longrightarrow> split_on sep b = [b]"
  by (induction b) auto

lemma split_on_first: "sep \<notin> set a \<Longrightarrow> split_on sep (a @ sep # b) = a # split_on sep b"
  by (induction a) auto

lemma pair_in_product:
  "a \<in> set xs \<Longrightarrow> b \<in> set ys \<Longrightarrow> [a, b] \<in> set (concat (map (\<lambda>a. map (\<lambda>b. [a, b]) ys) xs))"
  by (induction xs) auto

lemma one_digit_hours: "\<forall>h \<in> set (map (\<lambda>a. [a]) ''0123456789''). hour_ok h"
  by code_simp

lemma two_digit_hours:
  "\<forall>h \<in> set (concat (map (\<lambda>a. map (\<lambda>b. [a, b]) ''0123456789'') ''01'')). hour_ok h"
  by code_simp

lemma twenties: "\<forall>h \<in> set (concat (map (\<lambda>a. map (\<lambda>b. [a, b]) ''0123'') ''2'')). hour_ok h"
  by code_simp

lemma two_digit_minutes:
  "\<forall>m \<in> set (concat (map (\<lambda>a. map (\<lambda>b. [a, b]) ''0123456789'') ''012345'')). minute_ok m"
  by code_simp

lemma hour_matches_cases:
  "hour_matches h \<longleftrightarrow>
     (\<exists>a. h = [a] \<and> is_digit a)
     \<or> (\<exists>a b. h = [a, b] \<and> (a \<in> set ''01'' \<and> is_digit b \<or> a = CHR ''2'' \<and> b \<in> set ''0123''))"
proof (cases h)
  case Nil
  then show ?thesis by (simp add: hour_matches_def)
next
  case (Cons a t)
  note h = this
  show ?thesis
  proof (cases t)
    case Nil
    with h show ?thesis by (simp add: hour_matches_def)
  next
    case (Cons b u)
    with h show ?thesis by (cases u) (simp_all add: hour_matches_def)
  qed
qed

lemma minute_matches_cases:
  "minute_matches m \<longleftrightarrow> (\<exists>a b. m = [a, b] \<and> a \<in> set ''012345'' \<and> is_digit b)"
proof (cases m)
  case Nil
  then show ?thesis by (simp add: minute_matches_def)
next
  case (Cons a t)
  note m = this
  show ?thesis
  proof (cases t)
    case Nil
    with m show ?thesis by (simp add: minute_matches_def)
  next
    case (Cons b u)
    with m show ?thesis by (cases u) (simp_all add: minute_matches_def)
  qed
qed

lemma hour_matches_ok:
  assumes "hour_matches h"
  shows "hour_ok h"
proof -
  from assms consider
      a where "h = [a]" "a \<in> set ''0123456789''"
    | a b where "h = [a, b]" "a \<in> set ''01''" "b \<in> set ''0123456789''"
    | a b where "h = [a, b]" "a \<in> set ''2''" "b \<in> set ''0123''"
    unfolding hour_matches_cases is_digit_def by fastforce
  then show ?thesis
  proof cases
    case 1
    then have "h \<in> set (map (\<lambda>a. [a]) ''0123456789'')"
      by (simp only: set_map) (rule imageI)
    with one_digit_hours show ?thesis by blast
  next
    case 2
    then have "h \<in> set (concat (map (\<lambda>a. map (\<lambda>b. [a, b]) ''0123456789'') ''01''))"
      by (simp only: pair_in_product)
    with two_digit_hours show ?thesis by blast
  next
    case 3
    then have "h \<in> set (concat (map (\<lambda>a. map (\<lambda>b. [a, b]) ''0123'') ''2''))"
      by (simp only: pair_in_product)
    with twenties show ?thesis by blast
  qed
qed

lemma minute_matches_ok:
  assumes "minute_matches m"
  shows "minute_ok m"
proof -
  from assms obtain a b where "m = [a, b]" "a \<in> set ''012345''" "b \<in> set ''0123456789''"
    unfolding minute_matches_cases is_digit_def by blast
  then have "m \<in> set (concat (map (\<lambda>a. map (\<lambda>b. [a, b]) ''0123456789'') ''012345''))"
    by (simp only: pair_in_product)
  with two_digit_minutes show ?thesis by blast
qed

lemma accepted_time_parts:
  assumes "timeRegex_test s"
  shows "\<exists>H M. time_parts s = (Some H, Some M) \<and> 0 \<le> H \<and> H \<le> 23 \<and> 0 \<le> M \<and> M \<le> 59"
proof -
  let ?h = "takeWhile (\<lambda>c. c \<noteq> CHR '':'') s"
  let ?rest = "dropWhile (\<lambda>c. c \<noteq> CHR '':'') s"
  from assms have h: "hour_matches ?h" and r: "?rest \<noteq> []" and m: "minute_matches (tl ?rest)"
    by (simp_all add: timeRegex_test_def Let_def)
  from r have "hd ?rest = CHR '':''"
    using hd_dropWhile[of "\<lambda>c. c \<noteq> CHR '':''" s] by simp
  with r have rest: "?rest = CHR '':'' # tl ?rest"
    by (cases ?rest) simp_all
  have "s = ?h @ ?rest"
    by simp
  with rest have s: "s = ?h @ CHR '':'' # tl ?rest"
    by simp
  from hour_matches_ok[OF h] obtain H where
    hn: "CHR '':'' \<notin> set ?h" and H: "parseInt ?h = Some H" "0 \<le> H" "H \<le> 23"
    unfolding hour_ok_def by (auto split: option.splits)
  from minute_matches_ok[OF m] obtain M where
    mn: "CHR '':'' \<notin> set (tl ?rest)" and M: "parseInt (tl ?rest) = Some M" "0 \<le> M" "M \<le> 59"
    unfolding minute_ok_def by (auto split: option.splits)
  have "split_on CHR '':'' s = [?h, tl ?rest]"
    by (subst s) (simp only: split_on_first[OF hn] split_on_no_sep[OF mn])
  then have "time_parts s = (Some H, Some M)"
    by (simp add: time_parts_def H M)
  with H M show ?thesis
    by blast
qed

text \<open>
  C9. "07:00" converts to the cron expression "0 7 * * *", which fires once a day at
  07:00. "25:00" is rejected by \<open>updateForecastTime\<close> with the validation error, and so is
  every time string whose hour, as \<open>timeToCron\<close> reads it, is outside 0 to 23 or whose
  minute is outside 0 to 59; a rejected call leaves the store, and so the stored forecast
  time, and the scheduler as they were.
\<close>

theorem forecast_time_handling:
  "timeToCron ''07:00'' = Inr ''0 7 * * *''
   \<and> updateForecastTime rt ''25:00'' w = (Inl invalid_time_format, w)
   \<and> (time_parts s = (Some H, Some M) \<and> (H < 0 \<or> 23 < H \<or> M < 0 \<or> 59 < M) \<longrightarrow>
        updateForecastTime rt s w = (Inl invalid_time_format, w)
        \<and> forecastTime (store (snd (updateForecastTime rt s w))) = forecastTime (store w))"
proof (intro conjI impI)
  show "timeToCron ''07:00'' = Inr ''0 7 * * *''"
    by code_simp
  have "\<not> timeRegex_test ''25:00''"
    by code_simp
  then show "updateForecastTime rt ''25:00'' w = (Inl invalid_time_format, w)"
    by (simp add: updateForecastTime_def)
  assume a: "time_parts s = (Some H, Some M) \<and> (H < 0 \<or> 23 < H \<or> M < 0 \<or> 59 < M)"
  have "\<not> timeRegex_test s"
  proof
    assume "timeRegex_test s"
    from accepted_time_parts[OF this] a show False
      by auto
  qed
  then show r: "updateForecastTime rt s w = (Inl invalid_time_format, w)"
    by (simp add: updateForecastTime_def)
  show "forecastTime (store (snd (updateForecastTime rt s w))) = forecastTime (store w)"
    by (simp add: r)
qed

theorem forecast_time_handling_witness:
  "time_parts ''23:60'' = (Some 23, Some 60)
   \<and> updateForecastTime example_runtime ''23:60'' idle_world = (Inl invalid_time_format, idle_world)
   \<and> forecastTime (store (snd (updateForecastTime example_runtime ''23:60'' idle_world))) = ''07:00''"
proof -
  have p: "time_parts ''23:60'' = (Some 23, Some 60)"
    by code_simp
  have f: "forecastTime (store idle_world) = ''07:00''"
    by (simp add: idle_world_def empty_db_def)
  show ?thesis
    using forecast_time_handling[where s = "''23:60''" and H = 23 and M = 60
        and rt = example_runtime and w = idle_world] p f
    by simp
qed


section \<open>Dates: the calendar and the printed format\<close>

subsection \<open>The calendar\<close>



















subsection \<open>Printing numbers\<close>









subsection \<open>The printed time stamp\<close>











section \<open>The alert formatter: properties\<close>

lemma mapNWSSeverity_enum: "mapNWSSeverity e = Inr s \<Longrightarrow> s \<in> set severity_enumeration"
  unfolding mapNWSSeverity_def severity_enumeration_def Let_def
  by (auto split: if_splits json.splits)

lemma mapOpenWeatherSeverity_enum: "mapOpenWeatherSeverity tags \<in> set severity_enumeration"
  unfolding mapOpenWeatherSeverity_def severity_enumeration_def Let_def
  by (simp split: json.splits)

lemma mapNWSSeverity_nonempty: "mapNWSSeverity e = Inr s \<Longrightarrow> s \<noteq> []"
  using mapNWSSeverity_enum[of e s] by (auto simp: severity_enumeration_def)

lemma mapOpenWeatherSeverity_nonempty: "mapOpenWeatherSeverity tags \<noteq> []"
  using mapOpenWeatherSeverity_enum[of tags] by (auto simp: severity_enumeration_def)




lemma truthy_lookup:
  "truthy (lookup_lower table k) \<longleftrightarrow> lookup_lower table k \<noteq> JUndefined \<and> lookup_lower table k \<noteq> JStr []"
  by (auto simp: lookup_lower_def split: option.splits)

lemma mapSeverity_truthy: "truthy (mapSeverity v)"
  by (auto simp: mapSeverity_def Let_def js_or_def split: option.splits)


lemma collect_single: "collect [x] = Inr [c] \<longleftrightarrow> x = Inr c"
  by (cases x) auto

lemma formatAlerts_single:
  assumes "formatAlerts rt d (JArr [r]) loc = Inr [c]"
  shows "formatOpenWeatherMapAlert rt r loc = Inr c \<or> formatXWeatherAlert rt d r loc = Inr c"
  using assms by (simp add: formatAlerts_def Let_def collect_single split: if_splits)




lemma xw_shape:
  assumes "formatXWeatherAlert rt d r loc = Inr c"
  shows "canonical_shape c"
  using assms
  by (auto simp: formatXWeatherAlert_def Let_def canonical_shape_def field_def mapSeverity_truthy
      split: if_splits sum.splits)

lemma nws_shape:
  assumes "formatNWSAlert rt r loc = Inr c"
  shows "canonical_shape c"
proof (cases "truthy (get_prop r ''severity'')")
  case True
  with assms show ?thesis
    by (auto simp: formatNWSAlert_def canonical_shape_def field_def)
next
  case False
  with assms obtain s where "mapNWSSeverity (get_prop r ''event'') = Inr s"
    and "formatNWSAlert rt r loc = Inr c"
    by (cases "mapNWSSeverity (get_prop r ''event'')") (auto simp: formatNWSAlert_def)
  with False mapNWSSeverity_nonempty[of "get_prop r ''event''" s] show ?thesis
    by (auto simp: formatNWSAlert_def canonical_shape_def field_def)
qed

lemma owm_shape:
  assumes "formatOpenWeatherMapAlert rt r loc = Inr c"
  shows "canonical_shape c"
proof (cases "truthy (get_prop r ''event'')
              \<and> truthy (js_or3 (get_prop r ''headline'') (get_prop r ''areaDesc'')
                          (get_prop r ''senderName''))")
  case True
  with assms have "formatNWSAlert rt r loc = Inr c"
    by (simp add: formatOpenWeatherMapAlert_def split: if_splits)
  then show ?thesis
    by (rule nws_shape)
next
  case False
  with assms show ?thesis
    by (auto simp: formatOpenWeatherMapAlert_def canonical_shape_def field_def
        mapOpenWeatherSeverity_nonempty split: if_splits sum.splits)
qed

lemma generateAlertId_canonical:
  assumes "canonical_shape c"
  shows "generateAlertId rt (JObj c)
           = take 24 (base64 (''unknown-'' @ string_of_int (date_now rt) @ ''-''))"
  using assms
  by (simp add: generateAlertId_def canonical_shape_def get_prop_def js_or_def join_elem_def)

lemma xw_again:
  assumes "canonical_shape c"
  shows "\<exists>c'. formatXWeatherAlert rt d (JObj c) loc = Inr c'
            \<and> field c' ''alert_id'' = JStr (generateAlertId rt (JObj c))"
  using assms
  by (simp add: formatXWeatherAlert_def canonical_shape_def nullish_def get_prop_def js_or_def
      js_or3_def formatArea_def field_def Let_def)

lemma nws_again:
  assumes "canonical_shape c"
  shows "\<exists>c'. formatNWSAlert rt (JObj c) loc = Inr c'
            \<and> field c' ''alert_id'' = JStr (generateAlertId rt (JObj c))"
  using assms
  by (simp add: formatNWSAlert_def canonical_shape_def get_prop_def js_or_def field_def)

lemma owm_again:
  assumes "canonical_shape c"
  shows "\<exists>c'. formatOpenWeatherMapAlert rt (JObj c) loc = Inr c'
            \<and> field c' ''alert_id'' = JStr (generateAlertId rt (JObj c))"
proof (cases "truthy (get_prop (JObj c) ''event'')
              \<and> truthy (js_or3 (get_prop (JObj c) ''headline'') (get_prop (JObj c) ''areaDesc'')
                          (get_prop (JObj c) ''senderName''))")
  case True
  then have "formatOpenWeatherMapAlert rt (JObj c) loc = formatNWSAlert rt (JObj c) loc"
    by (simp add: formatOpenWeatherMapAlert_def nullish_def)
  with nws_again[OF assms] show ?thesis
    by simp
next
  case False
  have "seconds_to_iso rt (get_prop (JObj c) ''start'') = Inr JNull"
    "seconds_to_iso rt (get_prop (JObj c) ''end'') = Inr JNull"
    using assms by (simp_all add: seconds_to_iso_def canonical_shape_def get_prop_def)
  with False show ?thesis
    by (auto simp: formatOpenWeatherMapAlert_def nullish_def field_def)
qed

subsection \<open>The example alert, evaluated\<close>

lemmas string_eval = toLowerCase_def to_lower_char_def upper_letters_def lower_letters_def
  string_of_int_def string_of_nat.simps digit_char_def sextet_def base64_alphabet_def

lemmas formatter_eval = formatAlerts_def formatXWeatherAlert_def formatOpenWeatherMapAlert_def
  formatNWSAlert_def formatArea_def formatTimestamp_def formatTimestamp_try_def
  formatLocationName_def generateAlertId_def
  mapSeverity_def mapNWSSeverity_def mapOpenWeatherSeverity_def lookup_lower_def severityMap_def
  textMap_def zone_name_def seconds_to_iso_def new_Date_def toISOString_def time_clip_def
  js_or_def js_or3_def get_prop_def field_def nullish_def join_elem_def Let_def

lemma format_forecast:
  "formatAlerts example_runtime empty_db (JArr [forecast_alert]) new_york = Inr [canonical_forecast]"
  by (simp add: formatter_eval string_eval example_runtime_def empty_db_def forecast_alert_def
      new_york_def canonical_forecast_def)

lemma reformat_forecast:
  "alert_ids (formatAlerts example_runtime empty_db (JArr [JObj canonical_forecast]) new_york)
     = [JStr ''dW5rbm93bi0xNzAwMDAwMDAw'']"
  by (simp add: formatter_eval string_eval example_runtime_def empty_db_def new_york_def
      canonical_forecast_def alert_ids_def)

subsection \<open>Severity\<close>




subsection \<open>The identifier under a second application\<close>

text \<open>
  C4, as the code has it. The formatter does not recognise its own output: a formatted
  alert has no \<open>id\<close>, \<open>details\<close>, \<open>type\<close>, \<open>timestamp\<close> or \<open>zone\<close>. So whenever the formatter
  returns a record for a raw alert, formatting that record again, under either provider
  setting, returns a record whose \<open>alert_id\<close> is the first 24 characters of the base64
  encoding of "unknown-", the clock reading and "-", whatever the first \<open>alert_id\<close> was.
\<close>

theorem reformat_alert_id:
  "formatAlerts rt d (JArr [r]) loc = Inr [c] \<longrightarrow>
     alert_ids (reformat rt' d' loc' (formatAlerts rt d (JArr [r]) loc))
       = [JStr (take 24 (base64 (''unknown-'' @ string_of_int (date_now rt') @ ''-'')))]"
proof
  assume a: "formatAlerts rt d (JArr [r]) loc = Inr [c]"
  then have "canonical_shape c"
    using formatAlerts_single[OF a] owm_shape xw_shape by blast
  note s = this
  have "\<exists>c'. formatAlerts rt' d' (JArr [JObj c]) loc' = Inr [c']
              \<and> field c' ''alert_id'' = JStr (generateAlertId rt' (JObj c))"
    using owm_again[OF s, of rt' loc'] xw_again[OF s, of rt' d' loc']
    by (auto simp: formatAlerts_def Let_def)
  then show "alert_ids (reformat rt' d' loc' (formatAlerts rt d (JArr [r]) loc))
       = [JStr (take 24 (base64 (''unknown-'' @ string_of_int (date_now rt') @ ''-'')))]"
    using generateAlertId_canonical[OF s, of rt']
    by (auto simp: a reformat_def alert_ids_def)
qed

theorem reformat_alert_id_witness:
  "formatAlerts example_runtime empty_db (JArr [forecast_alert]) new_york = Inr [canonical_forecast]
   \<and> alert_ids (reformat example_runtime empty_db new_york
        (formatAlerts example_runtime empty_db (JArr [forecast_alert]) new_york))
     = [JStr (take 24 (base64 (''unknown-'' @ string_of_int (date_now example_runtime) @ ''-'')))]"
  using reformat_alert_id[where rt = example_runtime and d = empty_db and r = forecast_alert
      and loc = new_york and c = canonical_forecast and rt' = example_runtime and d' = empty_db
      and loc' = new_york]
    format_forecast
  by blast

text \<open>
  C4 as stated fails: the raw alert with the provider's id "a1" gets the \<open>alert_id\<close> "a1",
  and its formatted record, formatted again, gets an \<open>alert_id\<close> made from the clock.
\<close>

theorem reformat_changes_alert_id:
  "alert_ids (formatAlerts example_runtime empty_db (JArr [forecast_alert]) new_york)
     = [JStr ''a1'']
   \<and> alert_ids (reformat example_runtime empty_db new_york
        (formatAlerts example_runtime empty_db (JArr [forecast_alert]) new_york))
     = [JStr ''dW5rbm93bi0xNzAwMDAwMDAw'']"
  by (simp add: format_forecast reformat_def reformat_forecast)
     (simp add: alert_ids_def canonical_forecast_def field_def)

subsection \<open>Time stamps\<close>








lemma formatTimestamp_catches:
  "formatTimestamp_try rt (JNum 10000000000000000) = Inl RangeError
   \<and> formatTimestamp rt (JNum 10000000000000000) = JNull"
  by (simp add: formatTimestamp_def formatTimestamp_try_def new_Date_def time_clip_def
      toISOString_def)



end
